theory Spec2Isabelle
  imports Complex_Main "HOL-Library.Multiset"
begin

section \<open>JavaScript values handled by the storage layer\<close>

text \<open>
  A JavaScript number is \<open>NaN\<close>, an infinity, or a finite double; a finite double is
  represented by its exact rational value (\<open>-0\<close> is not told apart from \<open>0\<close>; both are
  falsy).
\<close>

datatype jsnum = NaN | PosInfinity | NegInfinity | Finite rat

text \<open>
  The amount of a request is typed \<open>number\<close>, yet the source converts it with
  \<open>Number(...)\<close> "to ensure amount is a number": a request body may carry it as text.
  An amount argument is therefore a number or a string.
\<close>

datatype amount_val = ANum jsnum | AStr string

text \<open>
  \<open>Number(v)\<close>. A field that the argument object does not have reads as \<open>undefined\<close>
  (here \<open>None\<close>), and \<open>Number(undefined)\<close> is \<open>NaN\<close>. The conversion of a string
  (\<open>StringToNumber\<close> of the language) is a built-in and is taken as the parameter
  \<open>s2n\<close>.
\<close>

fun ToNumber :: "(string \<Rightarrow> jsnum) \<Rightarrow> amount_val option \<Rightarrow> jsnum" where
  "ToNumber s2n None = NaN"
| "ToNumber s2n (Some (ANum n)) = n"
| "ToNumber s2n (Some (AStr s)) = s2n s"

text \<open>\<open>ToBoolean\<close> on an amount: \<open>undefined\<close>, \<open>0\<close>, \<open>NaN\<close> and the empty string are falsy.\<close>

fun truthy_amount :: "amount_val option \<Rightarrow> bool" where
  "truthy_amount None = False"
| "truthy_amount (Some (ANum n)) = (n \<noteq> NaN \<and> n \<noteq> Finite 0)"
| "truthy_amount (Some (AStr s)) = (s \<noteq> [])"

text \<open>\<open>Number(data.amount || 0)\<close>\<close>

definition Number_amount_or_0 :: "(string \<Rightarrow> jsnum) \<Rightarrow> amount_val option \<Rightarrow> jsnum" where
  "Number_amount_or_0 s2n v = (if truthy_amount v then ToNumber s2n v else Finite 0)"

text \<open>\<open>v || d\<close> on an optional string (the empty string is falsy) and on an optional
  integer (\<open>0\<close> is falsy).\<close>

definition or_string :: "string option \<Rightarrow> string \<Rightarrow> string" where
  "or_string v d = (case v of None \<Rightarrow> d | Some s \<Rightarrow> if s = [] then d else s)"

definition or_int :: "int option \<Rightarrow> int \<Rightarrow> int" where
  "or_int v d = (case v of None \<Rightarrow> d | Some n \<Rightarrow> if n = 0 then d else n)"

text \<open>
  A \<open>Date\<close> object holds a time value in milliseconds, or is the invalid date. A date
  argument of a request is a valid \<open>Date\<close>, given by its time value: such an object is
  truthy, and \<open>new Date(d)\<close> copies its time value. \<open>new Date(undefined)\<close> is the invalid
  date. \<open>new Date()\<close> reads the clock; each reading is an argument of the operation that
  takes it.
\<close>

datatype jsdate = InvalidDate | DateAt int

fun new_Date :: "int option \<Rightarrow> jsdate" where
  "new_Date None = InvalidDate"
| "new_Date (Some t) = DateAt t"

text \<open>\<open>x > y\<close> on numbers: every comparison with \<open>NaN\<close> is false.\<close>

fun js_gt :: "jsnum \<Rightarrow> jsnum \<Rightarrow> bool" where
  "js_gt NaN y = False"
| "js_gt x NaN = False"
| "js_gt PosInfinity y = (y \<noteq> PosInfinity)"
| "js_gt NegInfinity y = False"
| "js_gt (Finite a) PosInfinity = False"
| "js_gt (Finite a) NegInfinity = True"
| "js_gt (Finite a) (Finite b) = (b < a)"

text \<open>The decimal digits of an identifier, as a template string \<open>${id}\<close> prints it.\<close>

fun ToString_nat :: "nat \<Rightarrow> string" where
  "ToString_nat n =
     (if n < 10 then [char_of (48 + n)]
      else ToString_nat (n div 10) @ [char_of (48 + n mod 10)])"

declare ToString_nat.simps [simp del]

datatype error = Error string

section \<open>Records\<close>

text \<open>
  The interfaces \<open>Salary\<close> and \<open>Expense\<close> of the source. Both have \<open>id\<close>, \<open>amount\<close>,
  \<open>date\<close> and \<open>createdAt\<close>; these four are the common part \<open>entry\<close>, so that one field
  name serves both. The identifier is \<open>ident\<close> (\<open>id\<close> is the identity function of HOL).
  Identifiers are natural numbers: the counters of the source are doubles, which count
  exactly up to \<open>2^53\<close>, more additions than a process makes. \<open>notes\<close> (here
  \<open>notes_field\<close>, \<open>notes\<close> being a keyword of Isabelle) is optional in the interface.
  \<open>category\<close> is stored as the argument has it, \<open>undefined\<close> (\<open>None\<close>) when the argument
  lacks it. \<open>createdAt\<close> is always a valid date and is given by its time value.
\<close>

record entry =
  ident :: nat
  amount :: jsnum
  date :: jsdate
  createdAt :: int

record Salary = entry +
  month :: string
  year :: int
  notes_field :: "string option"

record Expense = entry +
  category :: "string option"
  description :: string

text \<open>
  The argument objects (\<open>InsertSalary\<close>, \<open>Omit<Salary, 'id' | 'createdAt'>\<close>,
  \<open>Partial<...>\<close>, and the \<open>values\<close> left of an \<open>UpdateSalary\<close> once its \<open>id\<close> is taken
  out). At run time any field may be missing; a field is either supplied with a value
  (\<open>Some\<close>) or omitted (\<open>None\<close>).
\<close>

record entry_in =
  in_amount :: "amount_val option"
  in_date :: "int option"

record salary_in = entry_in +
  in_month :: "string option"
  in_year :: "int option"
  in_notes :: "string option"

record expense_in = entry_in +
  in_category :: "string option"
  in_description :: "string option"

section \<open>The ephemeral backend: class InMemoryStorage\<close>

record InMemoryStorage =
  salaries :: "Salary list"
  expenses :: "Expense list"
  indianExpenses :: "Expense list"
  salaryId :: nat
  expenseId :: nat
  indianExpenseId :: nat

definition new_InMemoryStorage :: InMemoryStorage where
  "new_InMemoryStorage =
     \<lparr>salaries = [], expenses = [], indianExpenses = [],
      salaryId = 1, expenseId = 1, indianExpenseId = 1\<rparr>"

text \<open>\<open>Array.prototype.findIndex\<close>: the first index whose element satisfies the
  predicate; \<open>None\<close> stands for \<open>-1\<close>.\<close>

fun findIndex :: "('a \<Rightarrow> bool) \<Rightarrow> 'a list \<Rightarrow> nat option" where
  "findIndex P [] = None"
| "findIndex P (x # xs) = (if P x then Some 0 else map_option Suc (findIndex P xs))"

text \<open>\<open>xs.splice(index, 1)\<close>\<close>

definition splice1 :: "nat \<Rightarrow> 'a list \<Rightarrow> 'a list" where
  "splice1 index xs = take index xs @ drop (Suc index) xs"

definition getSalaries :: "InMemoryStorage \<Rightarrow> Salary list" where
  "getSalaries st = salaries st"

text \<open>
  \<open>createSalary\<close> reads the clock up to three times: \<open>yr\<close> is what
  \<open>new Date().getFullYear()\<close> gives, \<open>t_date\<close> the reading for a missing date, \<open>t_created\<close>
  the reading for \<open>createdAt\<close>.
\<close>

definition createSalary ::
  "(string \<Rightarrow> jsnum) \<Rightarrow> int \<Rightarrow> int \<Rightarrow> int \<Rightarrow> salary_in \<Rightarrow> InMemoryStorage
     \<Rightarrow> Salary \<times> InMemoryStorage" where
  "createSalary s2n yr t_date t_created data st =
     (let salary =
            \<lparr>ident = salaryId st,
             amount = Number_amount_or_0 s2n (in_amount data),
             date = (case in_date data of Some d \<Rightarrow> new_Date (Some d) | None \<Rightarrow> DateAt t_date),
             createdAt = t_created,
             month = or_string (in_month data) [],
             year = or_int (in_year data) yr,
             notes_field = Some (or_string (in_notes data) [])\<rparr>
      in (salary, st\<lparr>salaryId := salaryId st + 1, salaries := salaries st @ [salary]\<rparr>))"

definition addSalary ::
  "(string \<Rightarrow> jsnum) \<Rightarrow> int \<Rightarrow> int \<Rightarrow> int \<Rightarrow> salary_in \<Rightarrow> InMemoryStorage
     \<Rightarrow> Salary \<times> InMemoryStorage" where
  "addSalary s2n yr t_date t_created data st =
     (let salary =
            \<lparr>ident = salaryId st,
             amount = Number_amount_or_0 s2n (in_amount data),
             date = (case in_date data of Some d \<Rightarrow> new_Date (Some d) | None \<Rightarrow> DateAt t_date),
             createdAt = t_created,
             month = or_string (in_month data) [],
             year = or_int (in_year data) yr,
             notes_field = Some (or_string (in_notes data) [])\<rparr>
      in (salary, st\<lparr>salaryId := salaryId st + 1, salaries := salaries st @ [salary]\<rparr>))"

text \<open>
  \<open>{...salary, ...data, amount: ..., date: ...}\<close>: the fields that \<open>data\<close> supplies
  replace those of the stored record, then \<open>amount\<close> and \<open>date\<close> are set.
\<close>

definition updateSalary ::
  "(string \<Rightarrow> jsnum) \<Rightarrow> nat \<Rightarrow> salary_in \<Rightarrow> InMemoryStorage
     \<Rightarrow> Salary option \<times> InMemoryStorage" where
  "updateSalary s2n i data st =
     (case findIndex (\<lambda>s. ident s = i) (salaries st) of
        None \<Rightarrow> (None, st)
      | Some index \<Rightarrow>
          (let salary = salaries st ! index;
               updatedSalary = salary
                 \<lparr>month := (case in_month data of None \<Rightarrow> month salary | Some m \<Rightarrow> m),
                  year := (case in_year data of None \<Rightarrow> year salary | Some y \<Rightarrow> y),
                  notes_field := (case in_notes data of None \<Rightarrow> notes_field salary | Some n \<Rightarrow> Some n),
                  amount := (case in_amount data of
                               None \<Rightarrow> amount salary
                             | Some a \<Rightarrow> ToNumber s2n (Some a)),
                  date := (case in_date data of
                             Some d \<Rightarrow> new_Date (Some d)
                           | None \<Rightarrow> date salary)\<rparr>
           in (Some updatedSalary, st\<lparr>salaries := (salaries st)[index := updatedSalary]\<rparr>)))"

definition deleteSalary :: "nat \<Rightarrow> InMemoryStorage \<Rightarrow> bool \<times> InMemoryStorage" where
  "deleteSalary i st =
     (case findIndex (\<lambda>s. ident s = i) (salaries st) of
        None \<Rightarrow> (False, st)
      | Some index \<Rightarrow> (True, st\<lparr>salaries := splice1 index (salaries st)\<rparr>))"

definition getExpenses :: "InMemoryStorage \<Rightarrow> Expense list" where
  "getExpenses st = expenses st"

definition getIndianExpenses :: "InMemoryStorage \<Rightarrow> Expense list" where
  "getIndianExpenses st = indianExpenses st"

definition createExpense ::
  "(string \<Rightarrow> jsnum) \<Rightarrow> int \<Rightarrow> expense_in \<Rightarrow> InMemoryStorage
     \<Rightarrow> Expense \<times> InMemoryStorage" where
  "createExpense s2n t_created data st =
     (let expense =
            \<lparr>ident = expenseId st,
             amount = ToNumber s2n (in_amount data),
             date = new_Date (in_date data),
             createdAt = t_created,
             category = in_category data,
             description = or_string (in_description data) []\<rparr>
      in (expense, st\<lparr>expenseId := expenseId st + 1, expenses := expenses st @ [expense]\<rparr>))"

definition addExpense ::
  "(string \<Rightarrow> jsnum) \<Rightarrow> int \<Rightarrow> expense_in \<Rightarrow> InMemoryStorage
     \<Rightarrow> Expense \<times> InMemoryStorage" where
  "addExpense s2n t_created data st = createExpense s2n t_created data st"

definition updateExpense ::
  "(string \<Rightarrow> jsnum) \<Rightarrow> nat \<Rightarrow> expense_in \<Rightarrow> InMemoryStorage
     \<Rightarrow> Expense option \<times> InMemoryStorage" where
  "updateExpense s2n i data st =
     (case findIndex (\<lambda>e. ident e = i) (expenses st) of
        None \<Rightarrow> (None, st)
      | Some index \<Rightarrow>
          (let expense = expenses st ! index;
               updatedExpense = expense
                 \<lparr>category := (case in_category data of
                                 None \<Rightarrow> category expense
                               | Some c \<Rightarrow> Some c),
                  description := (case in_description data of
                                    None \<Rightarrow> description expense
                                  | Some d \<Rightarrow> d),
                  amount := (case in_amount data of
                               None \<Rightarrow> amount expense
                             | Some a \<Rightarrow> ToNumber s2n (Some a)),
                  date := (case in_date data of
                             Some d \<Rightarrow> new_Date (Some d)
                           | None \<Rightarrow> date expense)\<rparr>
           in (Some updatedExpense, st\<lparr>expenses := (expenses st)[index := updatedExpense]\<rparr>)))"

definition deleteExpense :: "nat \<Rightarrow> InMemoryStorage \<Rightarrow> bool \<times> InMemoryStorage" where
  "deleteExpense i st =
     (case findIndex (\<lambda>e. ident e = i) (expenses st) of
        None \<Rightarrow> (False, st)
      | Some index \<Rightarrow> (True, st\<lparr>expenses := splice1 index (expenses st)\<rparr>))"

definition createIndianExpense ::
  "(string \<Rightarrow> jsnum) \<Rightarrow> int \<Rightarrow> expense_in \<Rightarrow> InMemoryStorage
     \<Rightarrow> Expense \<times> InMemoryStorage" where
  "createIndianExpense s2n t_created data st =
     (let expense =
            \<lparr>ident = indianExpenseId st,
             amount = ToNumber s2n (in_amount data),
             date = new_Date (in_date data),
             createdAt = t_created,
             category = in_category data,
             description = or_string (in_description data) []\<rparr>
      in (expense, st\<lparr>indianExpenseId := indianExpenseId st + 1,
                      indianExpenses := indianExpenses st @ [expense]\<rparr>))"

definition deleteIndianExpense :: "nat \<Rightarrow> InMemoryStorage \<Rightarrow> bool \<times> InMemoryStorage" where
  "deleteIndianExpense i st =
     (case findIndex (\<lambda>e. ident e = i) (indianExpenses st) of
        None \<Rightarrow> (False, st)
      | Some index \<Rightarrow> (True, st\<lparr>indianExpenses := splice1 index (indianExpenses st)\<rparr>))"

text \<open>
  A run of the ephemeral backend: the calls in order, each with the clock readings it
  takes, and what each call returns.
\<close>

datatype mem_op =
    CreateSalary int int int salary_in
  | AddSalary int int int salary_in
  | UpdateSalary nat salary_in
  | DeleteSalary nat
  | CreateExpense int expense_in
  | AddExpense int expense_in
  | UpdateExpense nat expense_in
  | DeleteExpense nat
  | CreateIndianExpense int expense_in
  | DeleteIndianExpense nat

datatype reply =
    Created_salary Salary
  | Created_expense Expense
  | Created_indianExpense Expense
  | Updated_salary "Salary option"
  | Updated_expense "Expense option"
  | Deleted bool

fun call :: "(string \<Rightarrow> jsnum) \<Rightarrow> mem_op \<Rightarrow> InMemoryStorage \<Rightarrow> reply \<times> InMemoryStorage" where
  "call s2n (CreateSalary yr td tc data) st = map_prod Created_salary id (createSalary s2n yr td tc data st)"
| "call s2n (AddSalary yr td tc data) st = map_prod Created_salary id (addSalary s2n yr td tc data st)"
| "call s2n (UpdateSalary i data) st = map_prod Updated_salary id (updateSalary s2n i data st)"
| "call s2n (DeleteSalary i) st = map_prod Deleted id (deleteSalary i st)"
| "call s2n (CreateExpense tc data) st = map_prod Created_expense id (createExpense s2n tc data st)"
| "call s2n (AddExpense tc data) st = map_prod Created_expense id (addExpense s2n tc data st)"
| "call s2n (UpdateExpense i data) st = map_prod Updated_expense id (updateExpense s2n i data st)"
| "call s2n (DeleteExpense i) st = map_prod Deleted id (deleteExpense i st)"
| "call s2n (CreateIndianExpense tc data) st =
     map_prod Created_indianExpense id (createIndianExpense s2n tc data st)"
| "call s2n (DeleteIndianExpense i) st = map_prod Deleted id (deleteIndianExpense i st)"

fun run :: "(string \<Rightarrow> jsnum) \<Rightarrow> mem_op list \<Rightarrow> InMemoryStorage \<Rightarrow> reply list \<times> InMemoryStorage" where
  "run s2n [] st = ([], st)"
| "run s2n (c # cs) st =
     (case call s2n c st of (r, st') \<Rightarrow>
        (case run s2n cs st' of (rs, st'') \<Rightarrow> (r # rs, st'')))"

text \<open>The identifiers that the additions of a run returned, per category, in call order.\<close>

fun salary_ids :: "reply list \<Rightarrow> nat list" where
  "salary_ids [] = []"
| "salary_ids (Created_salary s # rs) = ident s # salary_ids rs"
| "salary_ids (r # rs) = salary_ids rs"

fun expense_ids :: "reply list \<Rightarrow> nat list" where
  "expense_ids [] = []"
| "expense_ids (Created_expense e # rs) = ident e # expense_ids rs"
| "expense_ids (r # rs) = expense_ids rs"

fun indianExpense_ids :: "reply list \<Rightarrow> nat list" where
  "indianExpense_ids [] = []"
| "indianExpense_ids (Created_indianExpense e # rs) = ident e # indianExpense_ids rs"
| "indianExpense_ids (r # rs) = indianExpense_ids rs"

text \<open>The clock readings that a run stores as creation timestamps, in call order.\<close>

fun createdAt_readings :: "mem_op list \<Rightarrow> int list" where
  "createdAt_readings [] = []"
| "createdAt_readings (CreateSalary yr td tc data # cs) = tc # createdAt_readings cs"
| "createdAt_readings (AddSalary yr td tc data # cs) = tc # createdAt_readings cs"
| "createdAt_readings (CreateExpense tc data # cs) = tc # createdAt_readings cs"
| "createdAt_readings (AddExpense tc data # cs) = tc # createdAt_readings cs"
| "createdAt_readings (CreateIndianExpense tc data # cs) = tc # createdAt_readings cs"
| "createdAt_readings (c # cs) = createdAt_readings cs"

section \<open>The persistent backend: class PostgresStorage\<close>

text \<open>
  The handle \<open>db\<close> of \<open>server/db.ts\<close> is a query builder of the library
  \<open>drizzle-orm/node-postgres\<close> over the tables \<open>salaries\<close> and \<open>expenses\<close>. The store is
  the content of the two tables. The table definitions are not part of the source; a
  row has the fields of the interfaces above, and a column holds the value written to
  it.
\<close>

record database =
  salaries_table :: "Salary list"
  expenses_table :: "Expense list"

text \<open>
  The object given to \<open>values(...)\<close> or \<open>set(...)\<close>: one optional value per column. The
  query builder leaves a column whose value is \<open>undefined\<close> (\<open>None\<close>) out of the
  statement, so that column keeps what the row has.
\<close>

record entry_columns =
  col_amount :: "jsnum option"
  col_date :: "jsdate option"
  col_createdAt :: "int option"

record salary_columns = entry_columns +
  col_month :: "string option"
  col_year :: "int option"
  col_notes :: "string option"

record expense_columns = entry_columns +
  col_category :: "string option"
  col_description :: "string option"

definition write_salary :: "salary_columns \<Rightarrow> Salary \<Rightarrow> Salary" where
  "write_salary v r =
     r\<lparr>amount := (case col_amount v of None \<Rightarrow> amount r | Some a \<Rightarrow> a),
       date := (case col_date v of None \<Rightarrow> date r | Some d \<Rightarrow> d),
       createdAt := (case col_createdAt v of None \<Rightarrow> createdAt r | Some t \<Rightarrow> t),
       month := (case col_month v of None \<Rightarrow> month r | Some m \<Rightarrow> m),
       year := (case col_year v of None \<Rightarrow> year r | Some y \<Rightarrow> y),
       notes_field := (case col_notes v of None \<Rightarrow> notes_field r | Some n \<Rightarrow> Some n)\<rparr>"

definition write_expense :: "expense_columns \<Rightarrow> Expense \<Rightarrow> Expense" where
  "write_expense v r =
     r\<lparr>amount := (case col_amount v of None \<Rightarrow> amount r | Some a \<Rightarrow> a),
       date := (case col_date v of None \<Rightarrow> date r | Some d \<Rightarrow> d),
       createdAt := (case col_createdAt v of None \<Rightarrow> createdAt r | Some t \<Rightarrow> t),
       category := (case col_category v of None \<Rightarrow> category r | Some c \<Rightarrow> Some c),
       description := (case col_description v of None \<Rightarrow> description r | Some d \<Rightarrow> d)\<rparr>"

text \<open>
  The four statements. \<open>select().from(t).orderBy(t.createdAt)\<close> returns the rows in
  ascending order of \<open>createdAt\<close>. \<open>insert(t).values(v).returning()\<close> returns the new row;
  the store completes it: \<open>store_row\<close> is the row as the store fills it in (the
  identifier it assigns, the defaults of its columns), \<open>v\<close> is written over it.
  \<open>update(t).set(v).where(eq(t.id, id)).returning()\<close> writes \<open>v\<close> to every row with that
  identifier and returns the rows it wrote. Awaiting \<open>delete(t).where(eq(t.id, id))\<close>,
  which has no \<open>returning()\<close>, gives the result object of the driver (its \<open>rowCount\<close> is
  the number of rows removed).
\<close>

definition db_select_orderBy_createdAt :: "('a entry_scheme) list \<Rightarrow> ('a entry_scheme) list" where
  "db_select_orderBy_createdAt tbl = sort_key createdAt tbl"

definition db_insert_returning :: "'r \<Rightarrow> 'r list \<Rightarrow> 'r \<times> 'r list" where
  "db_insert_returning row tbl = (row, tbl @ [row])"

definition db_update_returning :: "('r \<Rightarrow> 'r) \<Rightarrow> ('r \<Rightarrow> bool) \<Rightarrow> 'r list \<Rightarrow> 'r list \<times> 'r list" where
  "db_update_returning w P tbl = (map w (filter P tbl), map (\<lambda>r. if P r then w r else r) tbl)"

datatype QueryResult = QueryResult (rowCount: nat)

definition db_delete :: "('r \<Rightarrow> bool) \<Rightarrow> 'r list \<Rightarrow> QueryResult \<times> 'r list" where
  "db_delete P tbl = (QueryResult (length (filter P tbl)), filter (\<lambda>r. \<not> P r) tbl)"

text \<open>
  \<open>deleteCount > 0\<close> compares the result object with a number. The comparison converts
  the object to a number: a plain object has no numeric primitive value, its string is
  \<open>[object Object]\<close>, and the number of that string is \<open>NaN\<close>.
\<close>

definition ToNumber_object :: "QueryResult \<Rightarrow> jsnum" where
  "ToNumber_object result = NaN"

definition pg_getSalaries :: "database \<Rightarrow> Salary list" where
  "pg_getSalaries db = db_select_orderBy_createdAt (salaries_table db)"

definition pg_addSalary ::
  "(string \<Rightarrow> jsnum) \<Rightarrow> int \<Rightarrow> Salary \<Rightarrow> salary_in \<Rightarrow> database \<Rightarrow> Salary \<times> database" where
  "pg_addSalary s2n now store_row insertSalary db =
     (case db_insert_returning
             (write_salary
                \<lparr>col_amount = Some (ToNumber s2n (in_amount insertSalary)),
                 col_date = map_option DateAt (in_date insertSalary),
                 col_createdAt = Some now,
                 col_month = in_month insertSalary,
                 col_year = in_year insertSalary,
                 col_notes = in_notes insertSalary\<rparr> store_row)
             (salaries_table db) of
        (salary, tbl) \<Rightarrow> (salary, db\<lparr>salaries_table := tbl\<rparr>))"

definition pg_updateSalary ::
  "(string \<Rightarrow> jsnum) \<Rightarrow> nat \<Rightarrow> salary_in \<Rightarrow> database \<Rightarrow> (error + Salary) \<times> database" where
  "pg_updateSalary s2n i values db =
     (case db_update_returning
             (write_salary
                \<lparr>col_amount = Some (ToNumber s2n (in_amount values)),
                 col_date = map_option DateAt (in_date values),
                 col_createdAt = None,
                 col_month = in_month values,
                 col_year = in_year values,
                 col_notes = in_notes values\<rparr>)
             (\<lambda>r. ident r = i) (salaries_table db) of
        (returned, tbl) \<Rightarrow>
          (case returned of
             [] \<Rightarrow> Inl (Error (''Salary with id '' @ ToString_nat i @ '' not found''))
           | salary # _ \<Rightarrow> Inr salary,
           db\<lparr>salaries_table := tbl\<rparr>))"

definition pg_deleteSalary :: "nat \<Rightarrow> database \<Rightarrow> bool \<times> database" where
  "pg_deleteSalary i db =
     (case db_delete (\<lambda>r. ident r = i) (salaries_table db) of
        (deleteCount, tbl) \<Rightarrow>
          (js_gt (ToNumber_object deleteCount) (Finite 0), db\<lparr>salaries_table := tbl\<rparr>))"

definition pg_getExpenses :: "database \<Rightarrow> Expense list" where
  "pg_getExpenses db = db_select_orderBy_createdAt (expenses_table db)"

definition pg_addExpense ::
  "(string \<Rightarrow> jsnum) \<Rightarrow> int \<Rightarrow> Expense \<Rightarrow> expense_in \<Rightarrow> database \<Rightarrow> Expense \<times> database" where
  "pg_addExpense s2n now store_row insertExpense db =
     (case db_insert_returning
             (write_expense
                \<lparr>col_amount = Some (ToNumber s2n (in_amount insertExpense)),
                 col_date = map_option DateAt (in_date insertExpense),
                 col_createdAt = Some (case in_date insertExpense of Some d \<Rightarrow> d | None \<Rightarrow> now),
                 col_category = in_category insertExpense,
                 col_description = in_description insertExpense\<rparr> store_row)
             (expenses_table db) of
        (expense, tbl) \<Rightarrow> (expense, db\<lparr>expenses_table := tbl\<rparr>))"

definition pg_updateExpense ::
  "(string \<Rightarrow> jsnum) \<Rightarrow> nat \<Rightarrow> expense_in \<Rightarrow> database \<Rightarrow> (error + Expense) \<times> database" where
  "pg_updateExpense s2n i values db =
     (case db_update_returning
             (write_expense
                \<lparr>col_amount = Some (ToNumber s2n (in_amount values)),
                 col_date = map_option DateAt (in_date values),
                 col_createdAt = (case in_date values of Some d \<Rightarrow> Some d | None \<Rightarrow> None),
                 col_category = in_category values,
                 col_description = in_description values\<rparr>)
             (\<lambda>r. ident r = i) (expenses_table db) of
        (returned, tbl) \<Rightarrow>
          (case returned of
             [] \<Rightarrow> Inl (Error (''Expense with id '' @ ToString_nat i @ '' not found''))
           | expense # _ \<Rightarrow> Inr expense,
           db\<lparr>expenses_table := tbl\<rparr>))"

definition pg_deleteExpense :: "nat \<Rightarrow> database \<Rightarrow> bool \<times> database" where
  "pg_deleteExpense i db =
     (case db_delete (\<lambda>r. ident r = i) (expenses_table db) of
        (deleteCount, tbl) \<Rightarrow>
          (js_gt (ToNumber_object deleteCount) (Finite 0), db\<lparr>expenses_table := tbl\<rparr>))"

definition pg_getIndianExpenses :: "database \<Rightarrow> (error + Expense list) \<times> database" where
  "pg_getIndianExpenses db = (Inl (Error ''Method not implemented.''), db)"

definition pg_createIndianExpense :: "expense_in \<Rightarrow> database \<Rightarrow> (error + Expense) \<times> database" where
  "pg_createIndianExpense expense db = (Inl (Error ''Method not implemented.''), db)"

definition pg_deleteIndianExpense :: "nat \<Rightarrow> database \<Rightarrow> (error + bool) \<times> database" where
  "pg_deleteIndianExpense i db = (Inl (Error ''Method not implemented.''), db)"

section \<open>Observations on runs, and sample data\<close>

text \<open>How many additions a run makes to each category.\<close>

fun salary_additions :: "mem_op list \<Rightarrow> nat" where
  "salary_additions [] = 0"
| "salary_additions (CreateSalary yr td tc data # cs) = Suc (salary_additions cs)"
| "salary_additions (AddSalary yr td tc data # cs) = Suc (salary_additions cs)"
| "salary_additions (c # cs) = salary_additions cs"

fun expense_additions :: "mem_op list \<Rightarrow> nat" where
  "expense_additions [] = 0"
| "expense_additions (CreateExpense tc data # cs) = Suc (expense_additions cs)"
| "expense_additions (AddExpense tc data # cs) = Suc (expense_additions cs)"
| "expense_additions (c # cs) = expense_additions cs"

fun indianExpense_additions :: "mem_op list \<Rightarrow> nat" where
  "indianExpense_additions [] = 0"
| "indianExpense_additions (CreateIndianExpense tc data # cs) = Suc (indianExpense_additions cs)"
| "indianExpense_additions (c # cs) = indianExpense_additions cs"

text \<open>
  The invariant of the three collections: each is in ascending order of \<open>createdAt\<close>, and
  no stored creation timestamp is later than \<open>T\<close>, the latest clock reading so far.
\<close>

definition ordered_upto :: "int \<Rightarrow> InMemoryStorage \<Rightarrow> bool" where
  "ordered_upto T st \<longleftrightarrow>
     sorted (map createdAt (salaries st) @ [T]) \<and>
     sorted (map createdAt (expenses st) @ [T]) \<and>
     sorted (map createdAt (indianExpenses st) @ [T])"

text \<open>
  The surviving records of a category, read off the history of a run (its calls and
  what they returned) and not off the arrays of the class: an addition appends the
  record it returned; an update that returned a record puts that record in place of
  the record with the identifier; a delete drops the record with the identifier;
  every other call leaves the category alone. \<open>surviving\<close> goes through a history
  from a starting collection.
\<close>

fun salary_step :: "mem_op \<Rightarrow> reply \<Rightarrow> Salary list \<Rightarrow> Salary list" where
  "salary_step (CreateSalary yr td tc data) (Created_salary s) acc = acc @ [s]"
| "salary_step (AddSalary yr td tc data) (Created_salary s) acc = acc @ [s]"
| "salary_step (UpdateSalary i data) (Updated_salary (Some s)) acc =
     map (\<lambda>r. if ident r = i then s else r) acc"
| "salary_step (DeleteSalary i) r acc = filter (\<lambda>r. ident r \<noteq> i) acc"
| "salary_step c r acc = acc"

fun expense_step :: "mem_op \<Rightarrow> reply \<Rightarrow> Expense list \<Rightarrow> Expense list" where
  "expense_step (CreateExpense tc data) (Created_expense e) acc = acc @ [e]"
| "expense_step (AddExpense tc data) (Created_expense e) acc = acc @ [e]"
| "expense_step (UpdateExpense i data) (Updated_expense (Some e)) acc =
     map (\<lambda>r. if ident r = i then e else r) acc"
| "expense_step (DeleteExpense i) r acc = filter (\<lambda>r. ident r \<noteq> i) acc"
| "expense_step c r acc = acc"

fun indianExpense_step :: "mem_op \<Rightarrow> reply \<Rightarrow> Expense list \<Rightarrow> Expense list" where
  "indianExpense_step (CreateIndianExpense tc data) (Created_indianExpense e) acc = acc @ [e]"
| "indianExpense_step (DeleteIndianExpense i) r acc = filter (\<lambda>r. ident r \<noteq> i) acc"
| "indianExpense_step c r acc = acc"

fun surviving :: "(mem_op \<Rightarrow> reply \<Rightarrow> 'a \<Rightarrow> 'a) \<Rightarrow> 'a \<Rightarrow> mem_op list \<Rightarrow> reply list \<Rightarrow> 'a" where
  "surviving step acc (c # cs) (r # rs) = surviving step (step c r acc) cs rs"
| "surviving step acc cs rs = acc"

text \<open>
  The invariant of the identifiers: within a collection no identifier occurs twice,
  and each is below the counter of its category.
\<close>

definition ids_fresh :: "InMemoryStorage \<Rightarrow> bool" where
  "ids_fresh st \<longleftrightarrow>
     distinct (map ident (salaries st)) \<and>
     (\<forall>n\<in>set (map ident (salaries st)). n < salaryId st) \<and>
     distinct (map ident (expenses st)) \<and>
     (\<forall>n\<in>set (map ident (expenses st)). n < expenseId st) \<and>
     distinct (map ident (indianExpenses st)) \<and>
     (\<forall>n\<in>set (map ident (indianExpenses st)). n < indianExpenseId st)"

text \<open>A stored salary, a stored expense, both backends holding them, and a string
  conversion that knows the text \<open>150.5\<close>.\<close>

definition salary_1 :: Salary where
  "salary_1 = \<lparr>ident = 1, amount = Finite 1000, date = DateAt 50, createdAt = 100,
                month = ''Jan'', year = 2024, notes_field = Some ''bonus''\<rparr>"

definition expense_1 :: Expense where
  "expense_1 = \<lparr>ident = 1, amount = Finite 20, date = DateAt 50, createdAt = 50,
                 category = Some ''food'', description = ''lunch''\<rparr>"

definition database_1 :: database where
  "database_1 = \<lparr>salaries_table = [salary_1], expenses_table = [expense_1]\<rparr>"

definition storage_1 :: InMemoryStorage where
  "storage_1 = \<lparr>salaries = [salary_1], expenses = [expense_1], indianExpenses = [],
                 salaryId = 2, expenseId = 2, indianExpenseId = 1\<rparr>"

definition StringToNumber_1 :: "string \<Rightarrow> jsnum" where
  "StringToNumber_1 s = (if s = ''150.5'' then Finite (301 / 2) else NaN)"

definition salary_data_1 :: salary_in where
  "salary_data_1 = \<lparr>in_amount = Some (AStr ''150.5''), in_date = None,
                     in_month = Some ''Feb'', in_year = None, in_notes = None\<rparr>"

definition expense_data_1 :: expense_in where
  "expense_data_1 = \<lparr>in_amount = Some (AStr ''150.5''), in_date = None,
                      in_category = None, in_description = Some ''dinner''\<rparr>"

definition expense_data_2 :: expense_in where
  "expense_data_2 = \<lparr>in_amount = Some (AStr ''150.5''), in_date = Some 700,
                      in_category = Some ''food'', in_description = Some ''lunch''\<rparr>"

definition nothing_supplied_salary :: salary_in where
  "nothing_supplied_salary = \<lparr>in_amount = None, in_date = None,
                               in_month = None, in_year = None, in_notes = None\<rparr>"

definition nothing_supplied_expense :: expense_in where
  "nothing_supplied_expense = \<lparr>in_amount = None, in_date = None,
                                in_category = None, in_description = None\<rparr>"

definition expense_2 :: Expense where
  "expense_2 = \<lparr>ident = 2, amount = Finite 35, date = DateAt 60, createdAt = 60,
                 category = Some ''travel'', description = ''bus''\<rparr>"

text \<open>A store and a storage where the identifier \<open>2\<close> names an expense and no salary.\<close>

definition database_2 :: database where
  "database_2 = \<lparr>salaries_table = [salary_1], expenses_table = [expense_1, expense_2]\<rparr>"

definition storage_2 :: InMemoryStorage where
  "storage_2 = \<lparr>salaries = [salary_1], expenses = [expense_1, expense_2], indianExpenses = [],
                 salaryId = 2, expenseId = 3, indianExpenseId = 1\<rparr>"

definition run_backwards :: "mem_op list" where
  "run_backwards = [CreateSalary 2024 10 10 salary_data_1, AddSalary 2024 5 5 salary_data_1]"

definition run_1 :: "mem_op list" where
  "run_1 = [CreateSalary 2024 10 10 salary_data_1,
            CreateExpense 20 expense_data_2,
            AddSalary 2024 30 31 nothing_supplied_salary,
            UpdateSalary 1 salary_data_1,
            CreateIndianExpense 40 expense_data_1,
            DeleteSalary 1,
            AddExpense 50 expense_data_1,
            DeleteExpense 7]"

section \<open>Lists: searching, removing, replacing\<close>

lemma findIndex_None_iff: "findIndex P xs = None \<longleftrightarrow> (\<forall>x\<in>set xs. \<not> P x)"
  by (induction xs) auto

lemma findIndex_Some:
  "findIndex P xs = Some k \<Longrightarrow> k < length xs \<and> P (xs ! k) \<and> (\<forall>j<k. \<not> P (xs ! j))"
proof (induction xs arbitrary: k)
  case Nil
  then show ?case by simp
next
  case (Cons x xs)
  show ?case
  proof (cases "P x")
    case True
    with Cons.prems show ?thesis by simp
  next
    case False
    with Cons.prems obtain k' where k': "findIndex P xs = Some k'" "k = Suc k'"
      by auto
    from Cons.IH [OF k'(1)] False k'(2) show ?thesis
      by (auto simp: less_Suc_eq_0_disj)
  qed
qed

lemma map_if_none: "(\<forall>x\<in>set xs. \<not> P x) \<Longrightarrow> map (\<lambda>r. if P r then w r else r) xs = xs"
  by (induction xs) auto

lemma first_of_filter: "filter P xs = y # ys \<Longrightarrow> y \<in> set xs \<and> P y"
proof -
  assume "filter P xs = y # ys"
  then have "y \<in> set (filter P xs)" by simp
  then show ?thesis by simp
qed

lemma sorted_splice1: "sorted (ys @ [T]) \<Longrightarrow> sorted (splice1 k ys @ [T])"
proof -
  assume a: "sorted (ys @ [T])"
  then have ys: "sorted ys" and le: "\<forall>y\<in>set ys. y \<le> T"
    by (simp_all add: sorted_append)
  have "sorted (take k ys @ drop k ys)"
    using ys by simp
  then have tk: "\<forall>x\<in>set (take k ys). \<forall>y\<in>set (drop k ys). x \<le> y"
    unfolding sorted_append by blast
  have sub: "set (drop (Suc k) ys) \<subseteq> set (drop k ys)"
    by (metis drop_Suc set_drop_subset tl_drop drop_drop plus_1_eq_Suc)
  have "sorted (take k ys @ drop (Suc k) ys)"
    unfolding sorted_append
    using ys tk sub by (auto intro: sorted_wrt_take sorted_wrt_drop)
  moreover have "\<forall>y\<in>set (take k ys @ drop (Suc k) ys). y \<le> T"
    using le by (auto dest: in_set_takeD in_set_dropD)
  ultimately show ?thesis
    by (simp add: splice1_def sorted_append)
qed

lemma map_splice1: "map f (splice1 k xs) = splice1 k (map f xs)"
  by (simp add: splice1_def take_map drop_map)

lemma map_createdAt_update:
  "createdAt r = createdAt (xs ! k) \<Longrightarrow> map createdAt (xs[k := r]) = map createdAt xs"
  by (cases "k < length xs") (simp_all add: map_update list_update_same_conv list_update_beyond)

section \<open>Partial updates\<close>

lemma mem_updateSalary_frame:
  assumes "findIndex (\<lambda>s. ident s = i) (salaries st) = Some k"
  shows "(let r = salaries st ! k;
              res = updateSalary s2n i d st;
              r' = salaries (snd res) ! k
          in fst res = Some r' \<and>
             snd res = st\<lparr>salaries := (salaries st)[k := r']\<rparr> \<and>
             ident r' = ident r \<and>
             createdAt r' = createdAt r \<and>
             (in_amount d = None \<longrightarrow> amount r' = amount r) \<and>
             (in_date d = None \<longrightarrow> date r' = date r) \<and>
             (in_month d = None \<longrightarrow> month r' = month r) \<and>
             (in_year d = None \<longrightarrow> year r' = year r) \<and>
             (in_notes d = None \<longrightarrow> notes_field r' = notes_field r) \<and>
             (\<forall>a. in_amount d = Some a \<longrightarrow> amount r' = ToNumber s2n (Some a)))"
proof -
  from findIndex_Some [OF assms] have "k < length (salaries st)"
    by simp
  then show ?thesis
    using assms by (simp add: updateSalary_def Let_def)
qed

lemma mem_updateExpense_frame:
  assumes "findIndex (\<lambda>e. ident e = i) (expenses st) = Some k"
  shows "(let r = expenses st ! k;
              res = updateExpense s2n i d st;
              r' = expenses (snd res) ! k
          in fst res = Some r' \<and>
             snd res = st\<lparr>expenses := (expenses st)[k := r']\<rparr> \<and>
             ident r' = ident r \<and>
             createdAt r' = createdAt r \<and>
             (in_amount d = None \<longrightarrow> amount r' = amount r) \<and>
             (in_date d = None \<longrightarrow> date r' = date r) \<and>
             (in_category d = None \<longrightarrow> category r' = category r) \<and>
             (in_description d = None \<longrightarrow> description r' = description r) \<and>
             (\<forall>a. in_amount d = Some a \<longrightarrow> amount r' = ToNumber s2n (Some a)))"
proof -
  from findIndex_Some [OF assms] have "k < length (expenses st)"
    by simp
  then show ?thesis
    using assms by (simp add: updateExpense_def Let_def)
qed

lemma pg_updateSalary_frame:
  assumes "j < length (salaries_table db)"
  shows "(let db' = snd (pg_updateSalary s2n i v db);
              r = salaries_table db ! j;
              r' = salaries_table db' ! j
          in length (salaries_table db') = length (salaries_table db) \<and>
             expenses_table db' = expenses_table db \<and>
             (ident r \<noteq> i \<longrightarrow> r' = r) \<and>
             ident r' = ident r \<and>
             createdAt r' = createdAt r \<and>
             (\<forall>a. in_amount v = Some a \<and> ident r = i \<longrightarrow>
                amount r' = ToNumber s2n (Some a)) \<and>
             (in_date v = None \<longrightarrow> date r' = date r) \<and>
             (in_month v = None \<longrightarrow> month r' = month r) \<and>
             (in_year v = None \<longrightarrow> year r' = year r) \<and>
             (in_notes v = None \<longrightarrow> notes_field r' = notes_field r))"
  using assms
  by (simp add: pg_updateSalary_def db_update_returning_def write_salary_def Let_def)

lemma pg_updateExpense_frame:
  assumes "j < length (expenses_table db)"
  shows "(let db' = snd (pg_updateExpense s2n i v db);
              r = expenses_table db ! j;
              r' = expenses_table db' ! j
          in length (expenses_table db') = length (expenses_table db) \<and>
             salaries_table db' = salaries_table db \<and>
             (ident r \<noteq> i \<longrightarrow> r' = r) \<and>
             ident r' = ident r \<and>
             (in_date v = None \<longrightarrow> createdAt r' = createdAt r) \<and>
             (\<forall>a. in_amount v = Some a \<and> ident r = i \<longrightarrow>
                amount r' = ToNumber s2n (Some a)) \<and>
             (in_date v = None \<longrightarrow> date r' = date r) \<and>
             (in_category v = None \<longrightarrow> category r' = category r) \<and>
             (in_description v = None \<longrightarrow> description r' = description r))"
  using assms
  by (simp add: pg_updateExpense_def db_update_returning_def write_expense_def Let_def)

text \<open>
  C1, as stated: an update with a subset of the fields leaves every field it does not
  specify unchanged, on both backends. The persistent backend does otherwise in two
  places. An expense update that supplies a date also replaces the creation timestamp,
  which the update did not specify (stored \<open>50\<close>, afterwards \<open>700\<close>). And a salary
  update that omits the amount writes \<open>Number(undefined)\<close>, that is \<open>NaN\<close>, over the stored
  amount (stored \<open>1000\<close>).
\<close>

theorem partial_update_counterexample:
  "map createdAt (expenses_table (snd (pg_updateExpense StringToNumber_1 1
       \<lparr>in_amount = Some (AStr ''150.5''), in_date = Some 700,
        in_category = None, in_description = None\<rparr> database_1)))
     \<noteq> map createdAt (expenses_table database_1) \<and>
   map amount (salaries_table (snd (pg_updateSalary StringToNumber_1 1
       \<lparr>in_amount = None, in_date = None,
        in_month = Some ''Feb'', in_year = None, in_notes = None\<rparr> database_1)))
     \<noteq> map amount (salaries_table database_1)"
  by (simp add: pg_updateExpense_def pg_updateSalary_def db_update_returning_def
      write_expense_def write_salary_def database_1_def expense_1_def salary_1_def)

text \<open>
  C1, as amended. On the ephemeral backend, \<open>updateSalary\<close> and \<open>updateExpense\<close> of a
  stored record (found at index \<open>k\<close>) return the record now stored at \<open>k\<close>, change nothing
  else in the storage, and leave the identifier, the creation timestamp and every field
  that the update omits unchanged; a supplied amount \<open>a\<close>, number or text, is stored as
  the number \<open>Number(a)\<close>. On the persistent backend, an update keeps the number of rows
  and leaves the other table and every row with another identifier unchanged; in each
  row (at any index \<open>j\<close>) it leaves the identifier and every omitted field other than the
  amount unchanged, and a supplied amount \<open>a\<close> is stored as \<open>Number(a)\<close> in the rows it
  updates; the creation timestamp of a salary is unchanged, that of an expense is
  unchanged when the update supplies no date.
\<close>

theorem partial_update_frame:
  "(findIndex (\<lambda>s. ident s = i) (salaries st) = Some k \<longrightarrow>
      (let r = salaries st ! k;
           res = updateSalary s2n i sd st;
           r' = salaries (snd res) ! k
       in fst res = Some r' \<and>
          snd res = st\<lparr>salaries := (salaries st)[k := r']\<rparr> \<and>
          ident r' = ident r \<and>
          createdAt r' = createdAt r \<and>
          (in_amount sd = None \<longrightarrow> amount r' = amount r) \<and>
          (in_date sd = None \<longrightarrow> date r' = date r) \<and>
          (in_month sd = None \<longrightarrow> month r' = month r) \<and>
          (in_year sd = None \<longrightarrow> year r' = year r) \<and>
          (in_notes sd = None \<longrightarrow> notes_field r' = notes_field r) \<and>
          (\<forall>a. in_amount sd = Some a \<longrightarrow> amount r' = ToNumber s2n (Some a)))) \<and>
   (findIndex (\<lambda>e. ident e = i) (expenses st) = Some k \<longrightarrow>
      (let r = expenses st ! k;
           res = updateExpense s2n i ed st;
           r' = expenses (snd res) ! k
       in fst res = Some r' \<and>
          snd res = st\<lparr>expenses := (expenses st)[k := r']\<rparr> \<and>
          ident r' = ident r \<and>
          createdAt r' = createdAt r \<and>
          (in_amount ed = None \<longrightarrow> amount r' = amount r) \<and>
          (in_date ed = None \<longrightarrow> date r' = date r) \<and>
          (in_category ed = None \<longrightarrow> category r' = category r) \<and>
          (in_description ed = None \<longrightarrow> description r' = description r) \<and>
          (\<forall>a. in_amount ed = Some a \<longrightarrow> amount r' = ToNumber s2n (Some a)))) \<and>
   (j < length (salaries_table db) \<longrightarrow>
      (let db' = snd (pg_updateSalary s2n i sd db);
           r = salaries_table db ! j;
           r' = salaries_table db' ! j
       in length (salaries_table db') = length (salaries_table db) \<and>
          expenses_table db' = expenses_table db \<and>
          (ident r \<noteq> i \<longrightarrow> r' = r) \<and>
          ident r' = ident r \<and>
          createdAt r' = createdAt r \<and>
          (\<forall>a. in_amount sd = Some a \<and> ident r = i \<longrightarrow>
             amount r' = ToNumber s2n (Some a)) \<and>
          (in_date sd = None \<longrightarrow> date r' = date r) \<and>
          (in_month sd = None \<longrightarrow> month r' = month r) \<and>
          (in_year sd = None \<longrightarrow> year r' = year r) \<and>
          (in_notes sd = None \<longrightarrow> notes_field r' = notes_field r))) \<and>
   (j < length (expenses_table db) \<longrightarrow>
      (let db' = snd (pg_updateExpense s2n i ed db);
           r = expenses_table db ! j;
           r' = expenses_table db' ! j
       in length (expenses_table db') = length (expenses_table db) \<and>
          salaries_table db' = salaries_table db \<and>
          (ident r \<noteq> i \<longrightarrow> r' = r) \<and>
          ident r' = ident r \<and>
          (in_date ed = None \<longrightarrow> createdAt r' = createdAt r) \<and>
          (\<forall>a. in_amount ed = Some a \<and> ident r = i \<longrightarrow>
             amount r' = ToNumber s2n (Some a)) \<and>
          (in_date ed = None \<longrightarrow> date r' = date r) \<and>
          (in_category ed = None \<longrightarrow> category r' = category r) \<and>
          (in_description ed = None \<longrightarrow> description r' = description r)))"
proof (intro conjI impI)
  assume "findIndex (\<lambda>s. ident s = i) (salaries st) = Some k"
  then show "let r = salaries st ! k;
           res = updateSalary s2n i sd st;
           r' = salaries (snd res) ! k
       in fst res = Some r' \<and>
          snd res = st\<lparr>salaries := (salaries st)[k := r']\<rparr> \<and>
          ident r' = ident r \<and>
          createdAt r' = createdAt r \<and>
          (in_amount sd = None \<longrightarrow> amount r' = amount r) \<and>
          (in_date sd = None \<longrightarrow> date r' = date r) \<and>
          (in_month sd = None \<longrightarrow> month r' = month r) \<and>
          (in_year sd = None \<longrightarrow> year r' = year r) \<and>
          (in_notes sd = None \<longrightarrow> notes_field r' = notes_field r) \<and>
          (\<forall>a. in_amount sd = Some a \<longrightarrow> amount r' = ToNumber s2n (Some a))"
    by (rule mem_updateSalary_frame)
next
  assume "findIndex (\<lambda>e. ident e = i) (expenses st) = Some k"
  then show "let r = expenses st ! k;
           res = updateExpense s2n i ed st;
           r' = expenses (snd res) ! k
       in fst res = Some r' \<and>
          snd res = st\<lparr>expenses := (expenses st)[k := r']\<rparr> \<and>
          ident r' = ident r \<and>
          createdAt r' = createdAt r \<and>
          (in_amount ed = None \<longrightarrow> amount r' = amount r) \<and>
          (in_date ed = None \<longrightarrow> date r' = date r) \<and>
          (in_category ed = None \<longrightarrow> category r' = category r) \<and>
          (in_description ed = None \<longrightarrow> description r' = description r) \<and>
          (\<forall>a. in_amount ed = Some a \<longrightarrow> amount r' = ToNumber s2n (Some a))"
    by (rule mem_updateExpense_frame)
next
  assume "j < length (salaries_table db)"
  then show "let db' = snd (pg_updateSalary s2n i sd db);
           r = salaries_table db ! j;
           r' = salaries_table db' ! j
       in length (salaries_table db') = length (salaries_table db) \<and>
          expenses_table db' = expenses_table db \<and>
          (ident r \<noteq> i \<longrightarrow> r' = r) \<and>
          ident r' = ident r \<and>
          createdAt r' = createdAt r \<and>
          (\<forall>a. in_amount sd = Some a \<and> ident r = i \<longrightarrow>
             amount r' = ToNumber s2n (Some a)) \<and>
          (in_date sd = None \<longrightarrow> date r' = date r) \<and>
          (in_month sd = None \<longrightarrow> month r' = month r) \<and>
          (in_year sd = None \<longrightarrow> year r' = year r) \<and>
          (in_notes sd = None \<longrightarrow> notes_field r' = notes_field r)"
    by (rule pg_updateSalary_frame)
next
  assume "j < length (expenses_table db)"
  then show "let db' = snd (pg_updateExpense s2n i ed db);
           r = expenses_table db ! j;
           r' = expenses_table db' ! j
       in length (expenses_table db') = length (expenses_table db) \<and>
          salaries_table db' = salaries_table db \<and>
          (ident r \<noteq> i \<longrightarrow> r' = r) \<and>
          ident r' = ident r \<and>
          (in_date ed = None \<longrightarrow> createdAt r' = createdAt r) \<and>
          (\<forall>a. in_amount ed = Some a \<and> ident r = i \<longrightarrow>
             amount r' = ToNumber s2n (Some a)) \<and>
          (in_date ed = None \<longrightarrow> date r' = date r) \<and>
          (in_category ed = None \<longrightarrow> category r' = category r) \<and>
          (in_description ed = None \<longrightarrow> description r' = description r)"
    by (rule pg_updateExpense_frame)
qed

theorem partial_update_frame_witness:
  "findIndex (\<lambda>s. ident s = 1) (salaries storage_1) = Some 0 \<and>
   findIndex (\<lambda>e. ident e = 1) (expenses storage_1) = Some 0 \<and>
   in_amount salary_data_1 = Some (AStr ''150.5'') \<and>
   in_amount expense_data_1 = Some (AStr ''150.5'') \<and>
   0 < length (salaries_table database_1) \<and>
   0 < length (expenses_table database_1) \<and>
   updateSalary StringToNumber_1 1 salary_data_1 storage_1 =
     (Some (salary_1\<lparr>amount := Finite (301 / 2), month := ''Feb''\<rparr>),
      storage_1\<lparr>salaries := [salary_1\<lparr>amount := Finite (301 / 2), month := ''Feb''\<rparr>]\<rparr>) \<and>
   updateExpense StringToNumber_1 1 expense_data_1 storage_1 =
     (Some (expense_1\<lparr>amount := Finite (301 / 2), description := ''dinner''\<rparr>),
      storage_1\<lparr>expenses := [expense_1\<lparr>amount := Finite (301 / 2), description := ''dinner''\<rparr>]\<rparr>) \<and>
   salaries_table (snd (pg_updateSalary StringToNumber_1 1 salary_data_1 database_1)) =
     [salary_1\<lparr>amount := Finite (301 / 2), month := ''Feb''\<rparr>] \<and>
   expenses_table (snd (pg_updateExpense StringToNumber_1 1 expense_data_1 database_1)) =
     [expense_1\<lparr>amount := Finite (301 / 2), description := ''dinner''\<rparr>]"
proof -
  have h1: "findIndex (\<lambda>s. ident s = 1) (salaries storage_1) = Some 0"
    by (simp add: storage_1_def salary_1_def)
  have h2: "findIndex (\<lambda>e. ident e = 1) (expenses storage_1) = Some 0"
    by (simp add: storage_1_def expense_1_def)
  have h3: "in_amount salary_data_1 = Some (AStr ''150.5'')"
    by (simp add: salary_data_1_def)
  have h4: "in_amount expense_data_1 = Some (AStr ''150.5'')"
    by (simp add: expense_data_1_def)
  have h5: "0 < length (salaries_table database_1)" "0 < length (expenses_table database_1)"
    by (simp_all add: database_1_def)
  have n: "StringToNumber_1 ''150.5'' = Finite (301 / 2)"
    by (simp add: StringToNumber_1_def)
  have r: "salaries storage_1 = [salary_1]" "expenses storage_1 = [expense_1]"
    "salaries_table database_1 = [salary_1]" "expenses_table database_1 = [expense_1]"
    by (simp_all add: storage_1_def database_1_def)
  have f: "ident salary_1 = 1" "ident expense_1 = 1"
    by (simp_all add: salary_1_def expense_1_def)
  have u1: "updateSalary StringToNumber_1 1 salary_data_1 storage_1 =
     (Some (salary_1\<lparr>amount := Finite (301 / 2), month := ''Feb''\<rparr>),
      storage_1\<lparr>salaries := [salary_1\<lparr>amount := Finite (301 / 2), month := ''Feb''\<rparr>]\<rparr>)"
    by (simp add: updateSalary_def r f n salary_data_1_def Let_def)
  have u2: "updateExpense StringToNumber_1 1 expense_data_1 storage_1 =
     (Some (expense_1\<lparr>amount := Finite (301 / 2), description := ''dinner''\<rparr>),
      storage_1\<lparr>expenses := [expense_1\<lparr>amount := Finite (301 / 2), description := ''dinner''\<rparr>]\<rparr>)"
    by (simp add: updateExpense_def r f n expense_data_1_def Let_def)
  have u3: "salaries_table (snd (pg_updateSalary StringToNumber_1 1 salary_data_1 database_1)) =
     [salary_1\<lparr>amount := Finite (301 / 2), month := ''Feb''\<rparr>]"
    by (simp add: pg_updateSalary_def db_update_returning_def write_salary_def r f n
        salary_data_1_def)
  have u4: "expenses_table (snd (pg_updateExpense StringToNumber_1 1 expense_data_1 database_1)) =
     [expense_1\<lparr>amount := Finite (301 / 2), description := ''dinner''\<rparr>]"
    by (simp add: pg_updateExpense_def db_update_returning_def write_expense_def r f n
        expense_data_1_def)
  show ?thesis
    using partial_update_frame [where s2n = StringToNumber_1 and i = 1 and st = storage_1
        and k = 0 and sd = salary_data_1 and ed = expense_data_1
        and j = 0 and db = database_1]
      h1 h2 h3 h4 h5 u1 u2 u3 u4
    by simp
qed

section \<open>Deleting\<close>

lemma mem_delete_result:
  "fst (deleteSalary i st) = (\<exists>s\<in>set (salaries st). ident s = i) \<and>
   fst (deleteExpense i st) = (\<exists>e\<in>set (expenses st). ident e = i) \<and>
   fst (deleteIndianExpense i st) = (\<exists>e\<in>set (indianExpenses st). ident e = i)"
  using findIndex_None_iff [of "\<lambda>s. ident s = i" "salaries st"]
    findIndex_None_iff [of "\<lambda>s. ident s = i" "expenses st"]
    findIndex_None_iff [of "\<lambda>s. ident s = i" "indianExpenses st"]
  by (auto simp: deleteSalary_def deleteExpense_def deleteIndianExpense_def split: option.splits)

lemma mem_delete_removes:
  "findIndex (\<lambda>s. ident s = i) (salaries st) = Some k \<Longrightarrow>
     deleteSalary i st = (True, st\<lparr>salaries := take k (salaries st) @ drop (Suc k) (salaries st)\<rparr>)"
  by (simp add: deleteSalary_def splice1_def)

lemma pg_delete_removes:
  "salaries_table (snd (pg_deleteSalary i db)) = filter (\<lambda>r. ident r \<noteq> i) (salaries_table db) \<and>
   expenses_table (snd (pg_deleteExpense i db)) = filter (\<lambda>r. ident r \<noteq> i) (expenses_table db)"
  by (simp add: pg_deleteSalary_def pg_deleteExpense_def db_delete_def)

text \<open>The result object does carry the count that the comparison was meant to read.\<close>

lemma db_delete_rowCount:
  "(0 < rowCount (fst (db_delete P tbl))) = (\<exists>r\<in>set tbl. P r)"
  by (simp add: db_delete_def filter_empty_conv)

lemma pg_delete_returns_false:
  "fst (pg_deleteSalary i db) = False \<and> fst (pg_deleteExpense i db) = False"
  by (simp add: pg_deleteSalary_def pg_deleteExpense_def ToNumber_object_def split: prod.splits)

text \<open>
  C2: delete returns true if and only if a record with the identifier existed and was
  removed, on both backends. The ephemeral backend does so (\<open>mem_delete_result\<close>,
  \<open>mem_delete_removes\<close>). The persistent backend removes the rows
  (\<open>pg_delete_removes\<close>) and returns false whatever it removed
  (\<open>pg_delete_returns_false\<close>): it compares the result object of the statement, not its
  \<open>rowCount\<close>, with \<open>0\<close>. Here the store holds a salary and an expense with identifier
  \<open>1\<close>; deleting \<open>1\<close> empties the table and returns false.
\<close>

theorem pg_delete_existing_identifier:
  "pg_deleteSalary 1 database_1 = (False, database_1\<lparr>salaries_table := []\<rparr>) \<and>
   pg_deleteExpense 1 database_1 = (False, database_1\<lparr>expenses_table := []\<rparr>)"
  by (simp add: pg_deleteSalary_def pg_deleteExpense_def db_delete_def ToNumber_object_def
      database_1_def salary_1_def expense_1_def)

section \<open>Updating a missing identifier\<close>

text \<open>
  C3: an update of a category whose collection holds no record with the identifier,
  whatever the other category holds: the persistent backend throws an error whose
  message names the category and the identifier (and leaves the store as it was), and
  the ephemeral backend returns null (and leaves the storage as it was).
\<close>

theorem update_missing_identifier:
  "((\<forall>r\<in>set (salaries_table db). ident r \<noteq> i) \<longrightarrow>
      pg_updateSalary s2n i sv db =
        (Inl (Error (''Salary with id '' @ ToString_nat i @ '' not found'')), db)) \<and>
   ((\<forall>r\<in>set (expenses_table db). ident r \<noteq> i) \<longrightarrow>
      pg_updateExpense s2n i ev db =
        (Inl (Error (''Expense with id '' @ ToString_nat i @ '' not found'')), db)) \<and>
   ((\<forall>s\<in>set (salaries st). ident s \<noteq> i) \<longrightarrow> updateSalary s2n i sv st = (None, st)) \<and>
   ((\<forall>e\<in>set (expenses st). ident e \<noteq> i) \<longrightarrow> updateExpense s2n i ev st = (None, st))"
proof (intro conjI impI)
  assume "\<forall>r\<in>set (salaries_table db). ident r \<noteq> i"
  then show "pg_updateSalary s2n i sv db =
        (Inl (Error (''Salary with id '' @ ToString_nat i @ '' not found'')), db)"
    by (simp add: pg_updateSalary_def db_update_returning_def map_if_none)
next
  assume "\<forall>r\<in>set (expenses_table db). ident r \<noteq> i"
  then show "pg_updateExpense s2n i ev db =
        (Inl (Error (''Expense with id '' @ ToString_nat i @ '' not found'')), db)"
    by (simp add: pg_updateExpense_def db_update_returning_def map_if_none)
next
  assume "\<forall>s\<in>set (salaries st). ident s \<noteq> i"
  then have "findIndex (\<lambda>s. ident s = i) (salaries st) = None"
    by (simp add: findIndex_None_iff)
  then show "updateSalary s2n i sv st = (None, st)"
    by (simp add: updateSalary_def)
next
  assume "\<forall>e\<in>set (expenses st). ident e \<noteq> i"
  then have "findIndex (\<lambda>e. ident e = i) (expenses st) = None"
    by (simp add: findIndex_None_iff)
  then show "updateExpense s2n i ev st = (None, st)"
    by (simp add: updateExpense_def)
qed

text \<open>The salary updates name the identifier \<open>2\<close>, which an expense of the same store
  has; the expense updates name \<open>7\<close>, which nothing has.\<close>

theorem update_missing_identifier_witness:
  "2 \<notin> set (map ident (salaries_table database_2)) \<and>
   2 \<in> set (map ident (expenses_table database_2)) \<and>
   pg_updateSalary StringToNumber_1 2 salary_data_1 database_2 =
     (Inl (Error ''Salary with id 2 not found''), database_2) \<and>
   2 \<notin> set (map ident (salaries storage_2)) \<and>
   2 \<in> set (map ident (expenses storage_2)) \<and>
   updateSalary StringToNumber_1 2 salary_data_1 storage_2 = (None, storage_2) \<and>
   7 \<notin> set (map ident (expenses_table database_2)) \<and>
   pg_updateExpense StringToNumber_1 7 expense_data_1 database_2 =
     (Inl (Error ''Expense with id 7 not found''), database_2) \<and>
   7 \<notin> set (map ident (expenses storage_2)) \<and>
   updateExpense StringToNumber_1 7 expense_data_1 storage_2 = (None, storage_2)"
proof -
  have s: "ToString_nat 2 = ''2''" "ToString_nat 7 = ''7''"
    by code_simp+
  have h1: "\<forall>r\<in>set (salaries_table database_2). ident r \<noteq> 2"
    by (simp add: database_2_def salary_1_def)
  have h2: "\<forall>r\<in>set (expenses_table database_2). ident r \<noteq> 7"
    by (simp add: database_2_def expense_1_def expense_2_def)
  have h3: "\<forall>s\<in>set (salaries storage_2). ident s \<noteq> 2"
    by (simp add: storage_2_def salary_1_def)
  have h4: "\<forall>e\<in>set (expenses storage_2). ident e \<noteq> 7"
    by (simp add: storage_2_def expense_1_def expense_2_def)
  have p: "2 \<in> set (map ident (expenses_table database_2))"
    "2 \<in> set (map ident (expenses storage_2))"
    by (simp_all add: database_2_def storage_2_def expense_2_def)
  show ?thesis
    using update_missing_identifier [where s2n = StringToNumber_1 and i = 2
        and sv = salary_data_1 and db = database_2 and st = storage_2]
      update_missing_identifier [where s2n = StringToNumber_1 and i = 7
        and ev = expense_data_1 and db = database_2 and st = storage_2]
      h1 h2 h3 h4 p s
    by auto
qed

section \<open>Adding: creation timestamps and defaults\<close>

text \<open>
  C4, as stated: on both backends an expense add stores the supplied effective date as
  the creation timestamp. The ephemeral \<open>addExpense\<close> (that is, \<open>createExpense\<close>) stores
  the clock reading instead: here the date is \<open>700\<close>, the clock reads \<open>900\<close>, and
  \<open>createdAt\<close> is not \<open>700\<close>.
\<close>

theorem mem_addExpense_createdAt_counterexample:
  "createdAt (fst (addExpense StringToNumber_1 900 expense_data_2 storage_1)) \<noteq> 700"
  by (simp add: addExpense_def createExpense_def Let_def)

text \<open>
  C4, as amended. On the persistent backend an expense add stores the supplied date as
  creation timestamp when a date is supplied, else the clock reading \<open>now\<close>, and a
  salary add stores the clock reading. On the ephemeral backend every add of an expense
  or a salary stores the clock reading, whether or not a date is supplied.
\<close>

theorem add_createdAt:
  "createdAt (fst (pg_addExpense s2n now store_row x db)) =
     (case in_date x of Some d \<Rightarrow> d | None \<Rightarrow> now) \<and>
   createdAt (fst (pg_addSalary s2n now store_salary y db)) = now \<and>
   createdAt (fst (createExpense s2n now x st)) = now \<and>
   createdAt (fst (addExpense s2n now x st)) = now \<and>
   createdAt (fst (createIndianExpense s2n now x st)) = now \<and>
   createdAt (fst (createSalary s2n yr t_date now y st)) = now \<and>
   createdAt (fst (addSalary s2n yr t_date now y st)) = now"
  by (simp add: pg_addExpense_def pg_addSalary_def db_insert_returning_def write_expense_def
      write_salary_def createExpense_def addExpense_def createIndianExpense_def
      createSalary_def addSalary_def Let_def)

theorem add_createdAt_witness:
  "createdAt (fst (pg_addExpense StringToNumber_1 900 expense_1 expense_data_2 database_1)) = 700 \<and>
   createdAt (fst (pg_addExpense StringToNumber_1 900 expense_1 expense_data_1 database_1)) = 900 \<and>
   createdAt (fst (pg_addSalary StringToNumber_1 900 salary_1 salary_data_1 database_1)) = 900 \<and>
   createdAt (fst (createExpense StringToNumber_1 900 expense_data_2 storage_1)) = 900 \<and>
   createdAt (fst (createSalary StringToNumber_1 2024 899 900 salary_data_1 storage_1)) = 900"
  using add_createdAt [where s2n = StringToNumber_1 and now = 900 and store_row = expense_1
      and x = expense_data_2 and db = database_1 and store_salary = salary_1
      and y = salary_data_1 and st = storage_1 and yr = 2024 and t_date = 899]
    add_createdAt [where s2n = StringToNumber_1 and now = 900 and store_row = expense_1
      and x = expense_data_1 and db = database_1]
  by (simp add: expense_data_1_def expense_data_2_def)

text \<open>
  C5, as stated: on the ephemeral backend an omitted amount defaults to \<open>0\<close> and an
  omitted date to the current time, for expenses as for salaries. \<open>createExpense\<close> has no
  such defaults: with the amount and the date omitted and the clock at \<open>900\<close>, the amount
  is not \<open>0\<close> (it is \<open>Number(undefined)\<close>) and the date is not the clock reading (it is
  \<open>new Date(undefined)\<close>).
\<close>

theorem createExpense_defaults_counterexample:
  "amount (fst (createExpense StringToNumber_1 900 nothing_supplied_expense storage_1))
     \<noteq> Finite 0 \<and>
   date (fst (createExpense StringToNumber_1 900 nothing_supplied_expense storage_1))
     \<noteq> DateAt 900"
  by (simp add: createExpense_def Let_def nothing_supplied_expense_def)

text \<open>
  C5, as amended. On the ephemeral backend \<open>createSalary\<close> and \<open>addSalary\<close> fill an
  omitted amount with \<open>0\<close>, an omitted month with the empty string, an omitted year with
  the current year \<open>yr\<close>, omitted notes with the empty string and an omitted date with
  the current time \<open>t_date\<close>. \<open>createExpense\<close>, \<open>addExpense\<close> and \<open>createIndianExpense\<close> fill
  an omitted description with the empty string and nothing else: the amount is
  \<open>Number(data.amount)\<close>, the date \<open>new Date(data.date)\<close> and the category
  \<open>data.category\<close>, supplied or not.
\<close>

theorem create_defaults:
  "(in_amount y = None \<longrightarrow> amount (fst (createSalary s2n yr t_date t_created y st)) = Finite 0) \<and>
   (in_month y = None \<longrightarrow> month (fst (createSalary s2n yr t_date t_created y st)) = []) \<and>
   (in_year y = None \<longrightarrow> year (fst (createSalary s2n yr t_date t_created y st)) = yr) \<and>
   (in_notes y = None \<longrightarrow>
      notes_field (fst (createSalary s2n yr t_date t_created y st)) = Some []) \<and>
   (in_date y = None \<longrightarrow>
      date (fst (createSalary s2n yr t_date t_created y st)) = DateAt t_date) \<and>
   (in_amount y = None \<longrightarrow> amount (fst (addSalary s2n yr t_date t_created y st)) = Finite 0) \<and>
   (in_month y = None \<longrightarrow> month (fst (addSalary s2n yr t_date t_created y st)) = []) \<and>
   (in_year y = None \<longrightarrow> year (fst (addSalary s2n yr t_date t_created y st)) = yr) \<and>
   (in_notes y = None \<longrightarrow>
      notes_field (fst (addSalary s2n yr t_date t_created y st)) = Some []) \<and>
   (in_date y = None \<longrightarrow>
      date (fst (addSalary s2n yr t_date t_created y st)) = DateAt t_date) \<and>
   (\<forall>e \<in> {fst (createExpense s2n t_created x st), fst (addExpense s2n t_created x st),
            fst (createIndianExpense s2n t_created x st)}.
      (in_description x = None \<longrightarrow> description e = []) \<and>
      amount e = ToNumber s2n (in_amount x) \<and>
      date e = new_Date (in_date x) \<and>
      category e = in_category x)"
  by (simp add: createSalary_def addSalary_def createExpense_def addExpense_def
      createIndianExpense_def Let_def Number_amount_or_0_def or_string_def or_int_def)

theorem create_defaults_witness:
  "in_amount nothing_supplied_salary = None \<and>
   in_month nothing_supplied_salary = None \<and>
   in_year nothing_supplied_salary = None \<and>
   in_notes nothing_supplied_salary = None \<and>
   in_date nothing_supplied_salary = None \<and>
   in_description nothing_supplied_expense = None \<and>
   fst (createSalary StringToNumber_1 2024 899 900 nothing_supplied_salary storage_1) =
     \<lparr>ident = 2, amount = Finite 0, date = DateAt 899, createdAt = 900,
      month = [], year = 2024, notes_field = Some []\<rparr> \<and>
   fst (addSalary StringToNumber_1 2024 899 900 nothing_supplied_salary storage_1) =
     \<lparr>ident = 2, amount = Finite 0, date = DateAt 899, createdAt = 900,
      month = [], year = 2024, notes_field = Some []\<rparr> \<and>
   fst (createExpense StringToNumber_1 900 nothing_supplied_expense storage_1) =
     \<lparr>ident = 2, amount = NaN, date = InvalidDate, createdAt = 900,
      category = None, description = []\<rparr>"
proof -
  have h: "in_amount nothing_supplied_salary = None" "in_month nothing_supplied_salary = None"
    "in_year nothing_supplied_salary = None" "in_notes nothing_supplied_salary = None"
    "in_date nothing_supplied_salary = None" "in_description nothing_supplied_expense = None"
    by (simp_all add: nothing_supplied_salary_def nothing_supplied_expense_def)
  have i: "salaryId storage_1 = 2" "expenseId storage_1 = 2"
    by (simp_all add: storage_1_def)
  have v: "fst (createSalary StringToNumber_1 2024 899 900 nothing_supplied_salary storage_1) =
     \<lparr>ident = 2, amount = Finite 0, date = DateAt 899, createdAt = 900,
      month = [], year = 2024, notes_field = Some []\<rparr>"
    "fst (addSalary StringToNumber_1 2024 899 900 nothing_supplied_salary storage_1) =
     \<lparr>ident = 2, amount = Finite 0, date = DateAt 899, createdAt = 900,
      month = [], year = 2024, notes_field = Some []\<rparr>"
    "fst (createExpense StringToNumber_1 900 nothing_supplied_expense storage_1) =
     \<lparr>ident = 2, amount = NaN, date = InvalidDate, createdAt = 900,
      category = None, description = []\<rparr>"
    by (simp_all add: createSalary_def addSalary_def createExpense_def Let_def i
        nothing_supplied_salary_def nothing_supplied_expense_def Number_amount_or_0_def
        or_string_def or_int_def)
  show ?thesis
    using create_defaults [where s2n = StringToNumber_1 and yr = 2024 and t_date = 899
        and t_created = 900 and y = nothing_supplied_salary and x = nothing_supplied_expense
        and st = storage_1] h v
    by simp
qed

section \<open>The creation timestamp under an expense update of the persistent backend\<close>

lemma createdAt_write_expense:
  "createdAt (write_expense v r) = (case col_createdAt v of None \<Rightarrow> createdAt r | Some t \<Rightarrow> t)"
  by (simp add: write_expense_def)

text \<open>
  C8: \<open>updateExpense\<close> of the persistent backend replaces the creation timestamp of
  each row it updates by the supplied date when the update supplies one, and leaves the
  stored creation timestamp when it supplies none; rows with another identifier keep
  theirs. The record it returns is such an updated row.
\<close>

theorem pg_updateExpense_createdAt:
  "map createdAt (expenses_table (snd (pg_updateExpense s2n i v db))) =
     map (\<lambda>r. if ident r = i then (case in_date v of Some d \<Rightarrow> d | None \<Rightarrow> createdAt r)
              else createdAt r) (expenses_table db) \<and>
   (\<forall>e. fst (pg_updateExpense s2n i v db) = Inr e \<longrightarrow>
      (\<exists>r\<in>set (expenses_table db). ident r = i \<and>
         createdAt e = (case in_date v of Some d \<Rightarrow> d | None \<Rightarrow> createdAt r)))"
proof (intro conjI allI impI)
  show "map createdAt (expenses_table (snd (pg_updateExpense s2n i v db))) =
     map (\<lambda>r. if ident r = i then (case in_date v of Some d \<Rightarrow> d | None \<Rightarrow> createdAt r)
              else createdAt r) (expenses_table db)"
    by (simp add: pg_updateExpense_def db_update_returning_def createdAt_write_expense
        split: option.splits)
next
  fix e
  assume a: "fst (pg_updateExpense s2n i v db) = Inr e"
  let ?w = "write_expense
                \<lparr>col_amount = Some (ToNumber s2n (in_amount v)),
                 col_date = map_option DateAt (in_date v),
                 col_createdAt = (case in_date v of Some d \<Rightarrow> Some d | None \<Rightarrow> None),
                 col_category = in_category v,
                 col_description = in_description v\<rparr>"
  from a obtain r rs where f: "filter (\<lambda>r. ident r = i) (expenses_table db) = r # rs"
    and e: "e = ?w r"
    by (auto simp: pg_updateExpense_def db_update_returning_def split: list.splits
        simp: map_eq_Cons_conv)
  from first_of_filter [OF f] have "r \<in> set (expenses_table db)" "ident r = i"
    by simp_all
  moreover have "createdAt e = (case in_date v of Some d \<Rightarrow> d | None \<Rightarrow> createdAt r)"
    by (simp add: e createdAt_write_expense split: option.splits)
  ultimately show "\<exists>r\<in>set (expenses_table db). ident r = i \<and>
         createdAt e = (case in_date v of Some d \<Rightarrow> d | None \<Rightarrow> createdAt r)"
    by blast
qed

theorem pg_updateExpense_createdAt_witness:
  "map createdAt (expenses_table (snd (pg_updateExpense StringToNumber_1 1
       expense_data_2 database_1))) = [700] \<and>
   map createdAt (expenses_table (snd (pg_updateExpense StringToNumber_1 1
       expense_data_1 database_1))) = [50]"
  using pg_updateExpense_createdAt [of StringToNumber_1 1 expense_data_2 database_1]
    pg_updateExpense_createdAt [of StringToNumber_1 1 expense_data_1 database_1]
  by (simp add: database_1_def expense_1_def expense_data_1_def expense_data_2_def)

section \<open>Regional expenses on the persistent backend\<close>

text \<open>
  C9: on the persistent backend the three regional-expense operations fail with the
  error "Method not implemented.", whatever their argument and whatever the store
  holds, and leave the store as it is.
\<close>

theorem regional_expense_not_implemented:
  "pg_getIndianExpenses db = (Inl (Error ''Method not implemented.''), db) \<and>
   pg_createIndianExpense expense db = (Inl (Error ''Method not implemented.''), db) \<and>
   pg_deleteIndianExpense i db = (Inl (Error ''Method not implemented.''), db)"
  by (simp add: pg_getIndianExpenses_def pg_createIndianExpense_def pg_deleteIndianExpense_def)

theorem regional_expense_not_implemented_witness:
  "pg_getIndianExpenses database_1 = (Inl (Error ''Method not implemented.''), database_1) \<and>
   pg_createIndianExpense expense_data_1 database_1 =
     (Inl (Error ''Method not implemented.''), database_1) \<and>
   pg_deleteIndianExpense 1 database_1 = (Inl (Error ''Method not implemented.''), database_1)"
  using regional_expense_not_implemented [where db = database_1 and expense = expense_data_1
      and i = 1]
  by simp

section \<open>The two names of an addition\<close>

text \<open>
  C10: on the ephemeral backend \<open>createSalary\<close> and \<open>addSalary\<close> return the same record
  and leave the same storage, for every argument, every storage and the same clock
  readings; \<open>addExpense\<close> returns what \<open>createExpense\<close> returns, and leaves the same
  storage.
\<close>

theorem create_add_equivalent:
  "createSalary s2n yr t_date t_created data st = addSalary s2n yr t_date t_created data st \<and>
   addExpense s2n t_created x st = createExpense s2n t_created x st"
  by (simp add: createSalary_def addSalary_def addExpense_def)

theorem create_add_equivalent_witness:
  "createSalary StringToNumber_1 2024 899 900 salary_data_1 storage_1 =
     addSalary StringToNumber_1 2024 899 900 salary_data_1 storage_1 \<and>
   addExpense StringToNumber_1 900 expense_data_2 storage_1 =
     createExpense StringToNumber_1 900 expense_data_2 storage_1"
  using create_add_equivalent [where s2n = StringToNumber_1 and yr = 2024 and t_date = 899
      and t_created = 900 and data = salary_data_1 and st = storage_1 and x = expense_data_2]
  by simp

section \<open>Identifiers of the ephemeral backend\<close>

lemma call_counters:
  "call s2n c st = (r, st') \<Longrightarrow>
     salary_ids [r] = (if salary_additions [c] = 0 then [] else [salaryId st]) \<and>
     salaryId st' = salaryId st + salary_additions [c] \<and>
     expense_ids [r] = (if expense_additions [c] = 0 then [] else [expenseId st]) \<and>
     expenseId st' = expenseId st + expense_additions [c] \<and>
     indianExpense_ids [r] = (if indianExpense_additions [c] = 0 then [] else [indianExpenseId st]) \<and>
     indianExpenseId st' = indianExpenseId st + indianExpense_additions [c]"
  by (cases c)
    (auto simp: createSalary_def addSalary_def updateSalary_def deleteSalary_def
      createExpense_def addExpense_def updateExpense_def deleteExpense_def
      createIndianExpense_def deleteIndianExpense_def Let_def split: option.splits)

lemma ids_Cons:
  "salary_ids (r # rs) = salary_ids [r] @ salary_ids rs"
  "expense_ids (r # rs) = expense_ids [r] @ expense_ids rs"
  "indianExpense_ids (r # rs) = indianExpense_ids [r] @ indianExpense_ids rs"
  by (cases r; simp)+

lemma additions_Cons:
  "salary_additions (c # cs) = salary_additions [c] + salary_additions cs"
  "expense_additions (c # cs) = expense_additions [c] + expense_additions cs"
  "indianExpense_additions (c # cs) = indianExpense_additions [c] + indianExpense_additions cs"
  by (cases c; simp)+

lemma additions_le_1:
  "salary_additions [c] \<le> 1" "expense_additions [c] \<le> 1" "indianExpense_additions [c] \<le> 1"
  by (cases c; simp)+

text \<open>From any storage, the additions of a run return the consecutive values of the
  category's counter, and the counter ends after them.\<close>

lemma run_ids:
  "run s2n cs st = (rs, st') \<Longrightarrow>
     salary_ids rs = [salaryId st ..< salaryId st + salary_additions cs] \<and>
     salaryId st' = salaryId st + salary_additions cs \<and>
     expense_ids rs = [expenseId st ..< expenseId st + expense_additions cs] \<and>
     expenseId st' = expenseId st + expense_additions cs \<and>
     indianExpense_ids rs =
       [indianExpenseId st ..< indianExpenseId st + indianExpense_additions cs] \<and>
     indianExpenseId st' = indianExpenseId st + indianExpense_additions cs"
proof (induction cs arbitrary: st rs st')
  case Nil
  then show ?case by simp
next
  case (Cons c cs)
  obtain r st1 where c: "call s2n c st = (r, st1)"
    by (cases "call s2n c st")
  obtain rs1 st2 where cs: "run s2n cs st1 = (rs1, st2)"
    by (cases "run s2n cs st1")
  from Cons.prems c cs have rs: "rs = r # rs1" and st': "st' = st2"
    by simp_all
  note ih = Cons.IH [OF cs]
  note step = call_counters [OF c]
  have up: "\<And>a n. [a ..< a + Suc n] = a # [Suc a ..< Suc a + n]"
    by (simp add: upt_rec)
  have s1: "salary_additions [c] = 0 \<or> salary_additions [c] = 1"
    using additions_le_1(1) [of c] by linarith
  have e1: "expense_additions [c] = 0 \<or> expense_additions [c] = 1"
    using additions_le_1(2) [of c] by linarith
  have i1: "indianExpense_additions [c] = 0 \<or> indianExpense_additions [c] = 1"
    using additions_le_1(3) [of c] by linarith
  have A: "salary_ids rs = [salaryId st ..< salaryId st + salary_additions (c # cs)]"
    using s1 ih step up [of "salaryId st" "salary_additions cs"]
    by (auto simp: rs ids_Cons(1) [of r rs1] additions_Cons(1) [of c cs])
  have B: "expense_ids rs = [expenseId st ..< expenseId st + expense_additions (c # cs)]"
    using e1 ih step up [of "expenseId st" "expense_additions cs"]
    by (auto simp: rs ids_Cons(2) [of r rs1] additions_Cons(2) [of c cs])
  have C: "indianExpense_ids rs =
       [indianExpenseId st ..< indianExpenseId st + indianExpense_additions (c # cs)]"
    using i1 ih step up [of "indianExpenseId st" "indianExpense_additions cs"]
    by (auto simp: rs ids_Cons(3) [of r rs1] additions_Cons(3) [of c cs])
  have D: "salaryId st' = salaryId st + salary_additions (c # cs)"
    "expenseId st' = expenseId st + expense_additions (c # cs)"
    "indianExpenseId st' = indianExpenseId st + indianExpense_additions (c # cs)"
    using ih step
    by (simp_all add: st' additions_Cons(1) [of c cs] additions_Cons(2) [of c cs]
        additions_Cons(3) [of c cs])
  from A B C D show ?case by simp
qed

text \<open>
  C7: in every run of the ephemeral backend from a new storage, whatever calls it
  interleaves, the identifiers that the additions to a category return are \<open>1, 2, 3, ...\<close>
  in call order, as many as that category has additions: they start from \<open>1\<close>, strictly
  increase, never repeat, and those of a category do not depend on the additions to the
  two other categories.
\<close>

theorem identifiers_count_from_1:
  "salary_ids (fst (run s2n cs new_InMemoryStorage)) = [1 ..< 1 + salary_additions cs] \<and>
   expense_ids (fst (run s2n cs new_InMemoryStorage)) = [1 ..< 1 + expense_additions cs] \<and>
   indianExpense_ids (fst (run s2n cs new_InMemoryStorage)) =
     [1 ..< 1 + indianExpense_additions cs] \<and>
   distinct (salary_ids (fst (run s2n cs new_InMemoryStorage))) \<and>
   distinct (expense_ids (fst (run s2n cs new_InMemoryStorage))) \<and>
   distinct (indianExpense_ids (fst (run s2n cs new_InMemoryStorage))) \<and>
   sorted_wrt (<) (salary_ids (fst (run s2n cs new_InMemoryStorage))) \<and>
   sorted_wrt (<) (expense_ids (fst (run s2n cs new_InMemoryStorage))) \<and>
   sorted_wrt (<) (indianExpense_ids (fst (run s2n cs new_InMemoryStorage)))"
proof -
  obtain rs st' where r: "run s2n cs new_InMemoryStorage = (rs, st')"
    by (cases "run s2n cs new_InMemoryStorage")
  from run_ids [OF r] have
    "salary_ids rs = [1 ..< 1 + salary_additions cs]"
    "expense_ids rs = [1 ..< 1 + expense_additions cs]"
    "indianExpense_ids rs = [1 ..< 1 + indianExpense_additions cs]"
    by (simp_all add: new_InMemoryStorage_def)
  then show ?thesis
    by (simp add: r del: upt_Suc)
qed

theorem identifiers_count_from_1_witness:
  "salary_ids (fst (run StringToNumber_1 run_1 new_InMemoryStorage)) = [1, 2] \<and>
   expense_ids (fst (run StringToNumber_1 run_1 new_InMemoryStorage)) = [1, 2] \<and>
   indianExpense_ids (fst (run StringToNumber_1 run_1 new_InMemoryStorage)) = [1]"
proof -
  have n: "salary_additions run_1 = 2" "expense_additions run_1 = 2"
    "indianExpense_additions run_1 = 1"
    by (simp_all add: run_1_def)
  have u: "[1 ..< 1 + 2] = [1, 2::nat]" "[1 ..< 1 + 1] = [1::nat]"
    by (simp_all add: upt_rec)
  show ?thesis
    using identifiers_count_from_1 [of StringToNumber_1 run_1] n u
    by simp
qed

section \<open>The order of a listing\<close>

lemma update_keeps_order:
  "ordered_upto T st \<Longrightarrow> ordered_upto T (snd (updateSalary s2n i d st))"
  "ordered_upto T st \<Longrightarrow> ordered_upto T (snd (updateExpense s2n i x st))"
  by (auto simp: ordered_upto_def updateSalary_def updateExpense_def Let_def map_createdAt_update
      split: option.splits)

lemma delete_keeps_order:
  "ordered_upto T st \<Longrightarrow> ordered_upto T (snd (deleteSalary i st))"
  "ordered_upto T st \<Longrightarrow> ordered_upto T (snd (deleteExpense i st))"
  "ordered_upto T st \<Longrightarrow> ordered_upto T (snd (deleteIndianExpense i st))"
  by (auto simp: ordered_upto_def deleteSalary_def deleteExpense_def deleteIndianExpense_def
      map_splice1 sorted_splice1 split: option.splits)

lemma ordered_upto_mono: "ordered_upto T st \<Longrightarrow> T \<le> T' \<Longrightarrow> ordered_upto T' st"
  by (fastforce simp: ordered_upto_def sorted_append)

lemma add_keeps_order:
  assumes "ordered_upto T st" and "T \<le> tc"
  shows "ordered_upto tc (snd (createSalary s2n yr td tc d st))"
    and "ordered_upto tc (snd (addSalary s2n yr td tc d st))"
    and "ordered_upto tc (snd (createExpense s2n tc x st))"
    and "ordered_upto tc (snd (addExpense s2n tc x st))"
    and "ordered_upto tc (snd (createIndianExpense s2n tc x st))"
  using ordered_upto_mono [OF assms]
  by (auto simp: ordered_upto_def createSalary_def addSalary_def createExpense_def
      addExpense_def createIndianExpense_def Let_def sorted_append)

lemma call_keeps_order:
  assumes "ordered_upto T st" and "sorted (T # createdAt_readings [c])"
  shows "ordered_upto (last (T # createdAt_readings [c])) (snd (call s2n c st))"
proof (cases c)
  case (CreateSalary yr td tc d)
  with assms add_keeps_order(1) [of T st tc] show ?thesis by simp
next
  case (AddSalary yr td tc d)
  with assms add_keeps_order(2) [of T st tc] show ?thesis by simp
next
  case (UpdateSalary i d)
  with assms update_keeps_order(1) [of T st] show ?thesis by simp
next
  case (DeleteSalary i)
  with assms delete_keeps_order(1) [of T st] show ?thesis by simp
next
  case (CreateExpense tc x)
  with assms add_keeps_order(3) [of T st tc] show ?thesis by simp
next
  case (AddExpense tc x)
  with assms add_keeps_order(4) [of T st tc] show ?thesis by simp
next
  case (UpdateExpense i x)
  with assms update_keeps_order(2) [of T st] show ?thesis by simp
next
  case (DeleteExpense i)
  with assms delete_keeps_order(2) [of T st] show ?thesis by simp
next
  case (CreateIndianExpense tc x)
  with assms add_keeps_order(5) [of T st tc] show ?thesis by simp
next
  case (DeleteIndianExpense i)
  with assms delete_keeps_order(3) [of T st] show ?thesis by simp
qed

lemma readings_Cons: "createdAt_readings (c # cs) = createdAt_readings [c] @ createdAt_readings cs"
  by (cases c) simp_all

lemma run_keeps_order:
  "ordered_upto T st \<Longrightarrow> sorted (T # createdAt_readings cs) \<Longrightarrow>
     ordered_upto (last (T # createdAt_readings cs)) (snd (run s2n cs st))"
proof (induction cs arbitrary: T st)
  case Nil
  then show ?case by simp
next
  case (Cons c cs)
  let ?T1 = "last (T # createdAt_readings [c])"
  from Cons.prems(2) have s: "sorted (T # createdAt_readings [c] @ createdAt_readings cs)"
    by (simp add: readings_Cons [of c cs])
  then have s1: "sorted (T # createdAt_readings [c])"
    by (simp add: sorted_append)
  have s2: "sorted (?T1 # createdAt_readings cs)"
    using s by (cases "createdAt_readings [c]" rule: rev_cases) (auto simp: sorted_append)
  from call_keeps_order [OF Cons.prems(1) s1]
  have "ordered_upto ?T1 (snd (call s2n c st))" .
  from Cons.IH [OF this s2]
  have "ordered_upto (last (?T1 # createdAt_readings cs)) (snd (run s2n cs (snd (call s2n c st))))" .
  moreover have "last (?T1 # createdAt_readings cs) = last (T # createdAt_readings (c # cs))"
    by (simp add: readings_Cons [of c cs])
  moreover have "snd (run s2n (c # cs) st) = snd (run s2n cs (snd (call s2n c st)))"
    by (simp split: prod.splits)
  ultimately show ?case by simp
qed

lemma replace_at_first:
  "distinct (map ident xs) \<Longrightarrow> findIndex (\<lambda>r. ident r = i) xs = Some k \<Longrightarrow> ident s = i \<Longrightarrow>
     xs[k := s] = map (\<lambda>r. if ident r = i then s else r) xs"
proof (induction xs arbitrary: k)
  case Nil
  then show ?case by simp
next
  case (Cons x xs)
  show ?case
  proof (cases "ident x = i")
    case True
    with Cons.prems have k: "k = 0" and "\<forall>y\<in>set xs. ident y \<noteq> i"
      by (auto simp: image_iff)
    then have "map (\<lambda>r. if ident r = i then s else r) xs = xs"
      by (simp add: map_if_none)
    with True k show ?thesis by simp
  next
    case False
    with Cons.prems obtain k' where k': "findIndex (\<lambda>r. ident r = i) xs = Some k'" "k = Suc k'"
      by auto
    from Cons.prems(1) have "distinct (map ident xs)" by simp
    from Cons.IH [OF this k'(1) Cons.prems(3)] False k'(2) show ?thesis
      by simp
  qed
qed

lemma remove_at_first:
  "distinct (map ident xs) \<Longrightarrow> findIndex (\<lambda>r. ident r = i) xs = Some k \<Longrightarrow>
     splice1 k xs = filter (\<lambda>r. ident r \<noteq> i) xs"
proof (induction xs arbitrary: k)
  case Nil
  then show ?case by simp
next
  case (Cons x xs)
  show ?case
  proof (cases "ident x = i")
    case True
    with Cons.prems have k: "k = 0" and "\<forall>y\<in>set xs. ident y \<noteq> i"
      by (auto simp: image_iff)
    then have "filter (\<lambda>r. ident r \<noteq> i) xs = xs"
      by simp
    with True k show ?thesis by (simp add: splice1_def)
  next
    case False
    with Cons.prems obtain k' where k': "findIndex (\<lambda>r. ident r = i) xs = Some k'" "k = Suc k'"
      by auto
    from Cons.prems(1) have "distinct (map ident xs)" by simp
    from Cons.IH [OF this k'(1)] False k'(2) show ?thesis
      by (simp add: splice1_def)
  qed
qed

lemma keep_when_absent:
  "findIndex (\<lambda>r. ident r = i) xs = None \<Longrightarrow> filter (\<lambda>r. ident r \<noteq> i) xs = xs"
  by (simp add: findIndex_None_iff)

lemma map_ident_update:
  "ident r = ident (xs ! k) \<Longrightarrow> map ident (xs[k := r]) = map ident xs"
  by (cases "k < length xs") (simp_all add: map_update list_update_same_conv list_update_beyond)

lemma ids_after_filter:
  "distinct (map ident xs) \<Longrightarrow> distinct (map ident (filter (\<lambda>r. ident r \<noteq> i) xs))"
  by (simp add: distinct_map_filter)

lemma updateSalary_listing:
  assumes "ids_fresh st" and "updateSalary s2n i d st = (r, st')"
  shows "salaries st' = salary_step (UpdateSalary i d) (Updated_salary r) (salaries st) \<and>
         expenses st' = expenses st \<and> indianExpenses st' = indianExpenses st \<and> ids_fresh st'"
proof (cases "findIndex (\<lambda>s. ident s = i) (salaries st)")
  case None
  with assms show ?thesis by (auto simp: updateSalary_def)
next
  case (Some k)
  from findIndex_Some [OF Some] have k: "k < length (salaries st)" "ident (salaries st ! k) = i"
    by simp_all
  from assms(1) have d: "distinct (map ident (salaries st))"
    by (simp add: ids_fresh_def)
  from assms(2) Some obtain s where r: "r = Some s" and s: "ident s = i"
    and st': "st' = st\<lparr>salaries := (salaries st)[k := s]\<rparr>"
    by (auto simp: updateSalary_def Let_def k)
  have "map ident ((salaries st)[k := s]) = map ident (salaries st)"
    by (rule map_ident_update) (simp add: s k)
  then have "ids_fresh st'"
    using assms(1) unfolding ids_fresh_def st' by simp
  then show ?thesis
    using replace_at_first [OF d Some s] by (simp add: r st')
qed

lemma updateExpense_listing:
  assumes "ids_fresh st" and "updateExpense s2n i d st = (r, st')"
  shows "expenses st' = expense_step (UpdateExpense i d) (Updated_expense r) (expenses st) \<and>
         salaries st' = salaries st \<and> indianExpenses st' = indianExpenses st \<and> ids_fresh st'"
proof (cases "findIndex (\<lambda>s. ident s = i) (expenses st)")
  case None
  with assms show ?thesis by (auto simp: updateExpense_def)
next
  case (Some k)
  from findIndex_Some [OF Some] have k: "k < length (expenses st)" "ident (expenses st ! k) = i"
    by simp_all
  from assms(1) have d: "distinct (map ident (expenses st))"
    by (simp add: ids_fresh_def)
  from assms(2) Some obtain s where r: "r = Some s" and s: "ident s = i"
    and st': "st' = st\<lparr>expenses := (expenses st)[k := s]\<rparr>"
    by (auto simp: updateExpense_def Let_def k)
  have "map ident ((expenses st)[k := s]) = map ident (expenses st)"
    by (rule map_ident_update) (simp add: s k)
  then have "ids_fresh st'"
    using assms(1) unfolding ids_fresh_def st' by simp
  then show ?thesis
    using replace_at_first [OF d Some s] by (simp add: r st')
qed

lemma delete_listing:
  assumes "ids_fresh st"
  shows "salaries (snd (deleteSalary i st)) = filter (\<lambda>r. ident r \<noteq> i) (salaries st) \<and>
         expenses (snd (deleteSalary i st)) = expenses st \<and>
         indianExpenses (snd (deleteSalary i st)) = indianExpenses st \<and>
         ids_fresh (snd (deleteSalary i st))"
    and "expenses (snd (deleteExpense i st)) = filter (\<lambda>r. ident r \<noteq> i) (expenses st) \<and>
         salaries (snd (deleteExpense i st)) = salaries st \<and>
         indianExpenses (snd (deleteExpense i st)) = indianExpenses st \<and>
         ids_fresh (snd (deleteExpense i st))"
    and "indianExpenses (snd (deleteIndianExpense i st)) =
           filter (\<lambda>r. ident r \<noteq> i) (indianExpenses st) \<and>
         salaries (snd (deleteIndianExpense i st)) = salaries st \<and>
         expenses (snd (deleteIndianExpense i st)) = expenses st \<and>
         ids_fresh (snd (deleteIndianExpense i st))"
proof -
  from assms have d: "distinct (map ident (salaries st))" "distinct (map ident (expenses st))"
    "distinct (map ident (indianExpenses st))"
    by (simp_all add: ids_fresh_def)
  show "salaries (snd (deleteSalary i st)) = filter (\<lambda>r. ident r \<noteq> i) (salaries st) \<and>
         expenses (snd (deleteSalary i st)) = expenses st \<and>
         indianExpenses (snd (deleteSalary i st)) = indianExpenses st \<and>
         ids_fresh (snd (deleteSalary i st))"
    using assms remove_at_first [OF d(1), of i] keep_when_absent [of i "salaries st"]
    by (cases "findIndex (\<lambda>s. ident s = i) (salaries st)")
      (auto simp: deleteSalary_def ids_fresh_def distinct_map_filter)
  show "expenses (snd (deleteExpense i st)) = filter (\<lambda>r. ident r \<noteq> i) (expenses st) \<and>
         salaries (snd (deleteExpense i st)) = salaries st \<and>
         indianExpenses (snd (deleteExpense i st)) = indianExpenses st \<and>
         ids_fresh (snd (deleteExpense i st))"
    using assms remove_at_first [OF d(2), of i] keep_when_absent [of i "expenses st"]
    by (cases "findIndex (\<lambda>s. ident s = i) (expenses st)")
      (auto simp: deleteExpense_def ids_fresh_def distinct_map_filter)
  show "indianExpenses (snd (deleteIndianExpense i st)) =
           filter (\<lambda>r. ident r \<noteq> i) (indianExpenses st) \<and>
         salaries (snd (deleteIndianExpense i st)) = salaries st \<and>
         expenses (snd (deleteIndianExpense i st)) = expenses st \<and>
         ids_fresh (snd (deleteIndianExpense i st))"
    using assms remove_at_first [OF d(3), of i] keep_when_absent [of i "indianExpenses st"]
    by (cases "findIndex (\<lambda>s. ident s = i) (indianExpenses st)")
      (auto simp: deleteIndianExpense_def ids_fresh_def distinct_map_filter)
qed

lemma add_listing:
  assumes "ids_fresh st"
  shows "salaries (snd (createSalary s2n yr td tc d st)) =
           salaries st @ [fst (createSalary s2n yr td tc d st)] \<and>
         expenses (snd (createSalary s2n yr td tc d st)) = expenses st \<and>
         indianExpenses (snd (createSalary s2n yr td tc d st)) = indianExpenses st \<and>
         ids_fresh (snd (createSalary s2n yr td tc d st))"
    and "salaries (snd (addSalary s2n yr td tc d st)) =
           salaries st @ [fst (addSalary s2n yr td tc d st)] \<and>
         expenses (snd (addSalary s2n yr td tc d st)) = expenses st \<and>
         indianExpenses (snd (addSalary s2n yr td tc d st)) = indianExpenses st \<and>
         ids_fresh (snd (addSalary s2n yr td tc d st))"
    and "expenses (snd (createExpense s2n tc x st)) =
           expenses st @ [fst (createExpense s2n tc x st)] \<and>
         salaries (snd (createExpense s2n tc x st)) = salaries st \<and>
         indianExpenses (snd (createExpense s2n tc x st)) = indianExpenses st \<and>
         ids_fresh (snd (createExpense s2n tc x st))"
    and "expenses (snd (addExpense s2n tc x st)) =
           expenses st @ [fst (addExpense s2n tc x st)] \<and>
         salaries (snd (addExpense s2n tc x st)) = salaries st \<and>
         indianExpenses (snd (addExpense s2n tc x st)) = indianExpenses st \<and>
         ids_fresh (snd (addExpense s2n tc x st))"
    and "indianExpenses (snd (createIndianExpense s2n tc x st)) =
           indianExpenses st @ [fst (createIndianExpense s2n tc x st)] \<and>
         salaries (snd (createIndianExpense s2n tc x st)) = salaries st \<and>
         expenses (snd (createIndianExpense s2n tc x st)) = expenses st \<and>
         ids_fresh (snd (createIndianExpense s2n tc x st))"
  using assms
  by (auto simp: ids_fresh_def createSalary_def addSalary_def createExpense_def addExpense_def
      createIndianExpense_def Let_def less_Suc_eq)

lemma call_listing:
  assumes "ids_fresh st" and "call s2n c st = (r, st')"
  shows "salaries st' = salary_step c r (salaries st) \<and>
         expenses st' = expense_step c r (expenses st) \<and>
         indianExpenses st' = indianExpense_step c r (indianExpenses st) \<and>
         ids_fresh st'"
proof (cases c)
  case (CreateSalary yr td tc d)
  with assms(2) add_listing(1) [OF assms(1), of s2n yr td tc d] show ?thesis
    by (cases "createSalary s2n yr td tc d st") auto
next
  case (AddSalary yr td tc d)
  with assms(2) add_listing(2) [OF assms(1), of s2n yr td tc d] show ?thesis
    by (cases "addSalary s2n yr td tc d st") auto
next
  case (UpdateSalary i d)
  with assms(2) obtain u where u: "updateSalary s2n i d st = (u, st')" "r = Updated_salary u"
    by (cases "updateSalary s2n i d st") auto
  from updateSalary_listing [OF assms(1) u(1)] UpdateSalary u(2) show ?thesis
    by simp
next
  case (DeleteSalary i)
  with assms(2) delete_listing(1) [OF assms(1), of i] show ?thesis
    by (cases "deleteSalary i st") auto
next
  case (CreateExpense tc x)
  with assms(2) add_listing(3) [OF assms(1), of s2n tc x] show ?thesis
    by (cases "createExpense s2n tc x st") auto
next
  case (AddExpense tc x)
  with assms(2) add_listing(4) [OF assms(1), of s2n tc x] show ?thesis
    by (cases "addExpense s2n tc x st") auto
next
  case (UpdateExpense i x)
  with assms(2) obtain u where u: "updateExpense s2n i x st = (u, st')" "r = Updated_expense u"
    by (cases "updateExpense s2n i x st") auto
  from updateExpense_listing [OF assms(1) u(1)] UpdateExpense u(2) show ?thesis
    by simp
next
  case (DeleteExpense i)
  with assms(2) delete_listing(2) [OF assms(1), of i] show ?thesis
    by (cases "deleteExpense i st") auto
next
  case (CreateIndianExpense tc x)
  with assms(2) add_listing(5) [OF assms(1), of s2n tc x] show ?thesis
    by (cases "createIndianExpense s2n tc x st") auto
next
  case (DeleteIndianExpense i)
  with assms(2) delete_listing(3) [OF assms(1), of i] show ?thesis
    by (cases "deleteIndianExpense i st") auto
qed

lemma run_listing:
  "ids_fresh st \<Longrightarrow> run s2n cs st = (rs, st') \<Longrightarrow>
     salaries st' = surviving salary_step (salaries st) cs rs \<and>
     expenses st' = surviving expense_step (expenses st) cs rs \<and>
     indianExpenses st' = surviving indianExpense_step (indianExpenses st) cs rs"
proof (induction cs arbitrary: st rs)
  case Nil
  then show ?case by simp
next
  case (Cons c cs)
  obtain r st1 where c: "call s2n c st = (r, st1)"
    by (cases "call s2n c st")
  obtain rs1 st2 where cs: "run s2n cs st1 = (rs1, st2)"
    by (cases "run s2n cs st1")
  from Cons.prems(2) c cs have rs: "rs = r # rs1" and st': "st' = st2"
    by simp_all
  note step = call_listing [OF Cons.prems(1) c]
  then have "ids_fresh st1" by simp
  from Cons.IH [OF this] cs st' have
    "salaries st' = surviving salary_step (salaries st1) cs rs1 \<and>
     expenses st' = surviving expense_step (expenses st1) cs rs1 \<and>
     indianExpenses st' = surviving indianExpense_step (indianExpenses st1) cs rs1"
    by simp
  with step show ?case
    by (simp add: rs)
qed

lemma mem_listing_sorted:
  assumes "sorted (createdAt_readings cs)"
  shows "sorted (map createdAt (salaries (snd (run s2n cs new_InMemoryStorage)))) \<and>
         sorted (map createdAt (expenses (snd (run s2n cs new_InMemoryStorage)))) \<and>
         sorted (map createdAt (indianExpenses (snd (run s2n cs new_InMemoryStorage))))"
proof -
  define T where "T = (case createdAt_readings cs of [] \<Rightarrow> 0 | t # _ \<Rightarrow> t)"
  have "sorted (T # createdAt_readings cs)"
    using assms by (cases "createdAt_readings cs") (simp_all add: T_def)
  moreover have "ordered_upto T new_InMemoryStorage"
    by (simp add: ordered_upto_def new_InMemoryStorage_def)
  ultimately have "ordered_upto (last (T # createdAt_readings cs)) (snd (run s2n cs new_InMemoryStorage))"
    by (rule run_keeps_order [rotated])
  then show ?thesis
    by (simp add: ordered_upto_def sorted_append)
qed

lemma mem_listing_survivors:
  "salaries (snd (run s2n cs new_InMemoryStorage)) =
     surviving salary_step [] cs (fst (run s2n cs new_InMemoryStorage)) \<and>
   expenses (snd (run s2n cs new_InMemoryStorage)) =
     surviving expense_step [] cs (fst (run s2n cs new_InMemoryStorage)) \<and>
   indianExpenses (snd (run s2n cs new_InMemoryStorage)) =
     surviving indianExpense_step [] cs (fst (run s2n cs new_InMemoryStorage))"
proof -
  obtain rs st' where r: "run s2n cs new_InMemoryStorage = (rs, st')"
    by (cases "run s2n cs new_InMemoryStorage")
  have f: "ids_fresh new_InMemoryStorage"
    by (simp add: ids_fresh_def new_InMemoryStorage_def)
  have e: "salaries new_InMemoryStorage = []" "expenses new_InMemoryStorage = []"
    "indianExpenses new_InMemoryStorage = []"
    by (simp_all add: new_InMemoryStorage_def)
  from run_listing [OF f r] show ?thesis
    by (simp add: r e)
qed

text \<open>
  C6, as stated: after every sequence of calls the listing of either backend is in
  ascending order of creation timestamp. The ephemeral backend never sorts; it lists
  in insertion order. When the clock reads \<open>10\<close> at the first addition and \<open>5\<close> at the
  second (a clock set back in between), its listing has the creation timestamps
  \<open>10, 5\<close>.
\<close>

theorem mem_listing_insertion_order_counterexample:
  "\<not> sorted (map createdAt
       (getSalaries (snd (run StringToNumber_1 run_backwards new_InMemoryStorage))))"
  by (simp add: run_backwards_def createSalary_def addSalary_def getSalaries_def
      new_InMemoryStorage_def Let_def)

text \<open>
  C6, as amended. After every sequence of additions, updates and deletions from a new
  storage, each listing of the ephemeral backend holds exactly the surviving records of
  its category (those the additions returned, each as the last update of its identifier
  returned it, without those whose identifier a delete named), in insertion order; and
  the listings are in ascending order of creation timestamp when the clock readings
  that successive additions store do not decrease. The persistent backend lists
  exactly the rows of the table, in ascending order of creation timestamp, whatever the
  table holds.
\<close>

theorem list_ordered_by_createdAt:
  "getSalaries (snd (run s2n cs new_InMemoryStorage)) =
     surviving salary_step [] cs (fst (run s2n cs new_InMemoryStorage)) \<and>
   getExpenses (snd (run s2n cs new_InMemoryStorage)) =
     surviving expense_step [] cs (fst (run s2n cs new_InMemoryStorage)) \<and>
   getIndianExpenses (snd (run s2n cs new_InMemoryStorage)) =
     surviving indianExpense_step [] cs (fst (run s2n cs new_InMemoryStorage)) \<and>
   (sorted (createdAt_readings cs) \<longrightarrow>
      sorted (map createdAt (getSalaries (snd (run s2n cs new_InMemoryStorage)))) \<and>
      sorted (map createdAt (getExpenses (snd (run s2n cs new_InMemoryStorage)))) \<and>
      sorted (map createdAt (getIndianExpenses (snd (run s2n cs new_InMemoryStorage))))) \<and>
   sorted (map createdAt (pg_getSalaries db)) \<and>
   mset (pg_getSalaries db) = mset (salaries_table db) \<and>
   sorted (map createdAt (pg_getExpenses db)) \<and>
   mset (pg_getExpenses db) = mset (expenses_table db)"
  using mem_listing_survivors [of s2n cs] mem_listing_sorted [of cs s2n]
  by (simp add: getSalaries_def getExpenses_def getIndianExpenses_def pg_getSalaries_def
      pg_getExpenses_def db_select_orderBy_createdAt_def)

text \<open>In \<open>run_1\<close> the first salary is updated and then deleted, and a delete names an
  expense that does not exist.\<close>

theorem list_ordered_by_createdAt_witness:
  "sorted (createdAt_readings run_1) \<and>
   map (\<lambda>r. (ident r, createdAt r, month r))
     (getSalaries (snd (run StringToNumber_1 run_1 new_InMemoryStorage))) = [(2, 31, [])] \<and>
   map (\<lambda>r. (ident r, createdAt r, description r))
     (getExpenses (snd (run StringToNumber_1 run_1 new_InMemoryStorage))) =
     [(1, 20, ''lunch''), (2, 50, ''dinner'')] \<and>
   map (\<lambda>r. (ident r, createdAt r, description r))
     (getIndianExpenses (snd (run StringToNumber_1 run_1 new_InMemoryStorage))) =
     [(1, 40, ''dinner'')] \<and>
   sorted (map createdAt (getSalaries (snd (run StringToNumber_1 run_1 new_InMemoryStorage)))) \<and>
   sorted (map createdAt (getExpenses (snd (run StringToNumber_1 run_1 new_InMemoryStorage)))) \<and>
   sorted (map createdAt
     (getIndianExpenses (snd (run StringToNumber_1 run_1 new_InMemoryStorage)))) \<and>
   map createdAt (pg_getExpenses database_2) = [50, 60]"
proof -
  have h: "sorted (createdAt_readings run_1)"
    by (simp add: run_1_def)
  have v: "map (\<lambda>r. (ident r, createdAt r, month r))
       (surviving salary_step [] run_1 (fst (run StringToNumber_1 run_1 new_InMemoryStorage))) =
       [(2, 31, [])]"
    "map (\<lambda>r. (ident r, createdAt r, description r))
       (surviving expense_step [] run_1 (fst (run StringToNumber_1 run_1 new_InMemoryStorage))) =
       [(1, 20, ''lunch''), (2, 50, ''dinner'')]"
    "map (\<lambda>r. (ident r, createdAt r, description r))
       (surviving indianExpense_step [] run_1
          (fst (run StringToNumber_1 run_1 new_InMemoryStorage))) =
       [(1, 40, ''dinner'')]"
    by code_simp+
  have p: "map createdAt (pg_getExpenses database_2) = [50, 60]"
    by (simp add: pg_getExpenses_def db_select_orderBy_createdAt_def database_2_def
        expense_1_def expense_2_def)
  note th = list_ordered_by_createdAt [of StringToNumber_1 run_1 database_2]
  from th have g:
    "getSalaries (snd (run StringToNumber_1 run_1 new_InMemoryStorage)) =
       surviving salary_step [] run_1 (fst (run StringToNumber_1 run_1 new_InMemoryStorage))"
    "getExpenses (snd (run StringToNumber_1 run_1 new_InMemoryStorage)) =
       surviving expense_step [] run_1 (fst (run StringToNumber_1 run_1 new_InMemoryStorage))"
    "getIndianExpenses (snd (run StringToNumber_1 run_1 new_InMemoryStorage)) =
       surviving indianExpense_step [] run_1
         (fst (run StringToNumber_1 run_1 new_InMemoryStorage))"
    by blast+
  from th h have so:
    "sorted (map createdAt (getSalaries (snd (run StringToNumber_1 run_1 new_InMemoryStorage))))"
    "sorted (map createdAt (getExpenses (snd (run StringToNumber_1 run_1 new_InMemoryStorage))))"
    "sorted (map createdAt
       (getIndianExpenses (snd (run StringToNumber_1 run_1 new_InMemoryStorage))))"
    by blast+
  from v have w:
    "map (\<lambda>r. (ident r, createdAt r, month r))
       (getSalaries (snd (run StringToNumber_1 run_1 new_InMemoryStorage))) = [(2, 31, [])]"
    "map (\<lambda>r. (ident r, createdAt r, description r))
       (getExpenses (snd (run StringToNumber_1 run_1 new_InMemoryStorage))) =
       [(1, 20, ''lunch''), (2, 50, ''dinner'')]"
    "map (\<lambda>r. (ident r, createdAt r, description r))
       (getIndianExpenses (snd (run StringToNumber_1 run_1 new_InMemoryStorage))) =
       [(1, 40, ''dinner'')]"
    by (simp_all only: g)
  from h w so p show ?thesis
    by (intro conjI)
qed

end
